theory Spec2Isabelle
  imports Complex_Main "HOL-Library.Log_Nat"
begin

section \<open>JavaScript numbers\<close>

text \<open>
  The component computes with JavaScript numbers, the binary64 floating-point numbers.
  A finite number is modelled by the rational it denotes (\<open>Fin q\<close>); the three non-finite
  values are kept, because the code reaches them: \<open>parseInt\<close> answers \<open>NaN\<close> on a string
  without digits, and the status panel divides by a time difference that may be zero.
  Every sum, difference, product and quotient is rounded to the nearest binary64 number,
  a tie going to the even significand, as the machine does.  One thing is left out: the
  sign of zero.  It shows only in a division by zero, and every zero divisor of this
  program is a difference \<open>a - a\<close>, which is \<open>+0\<close>.
\<close>

datatype jsnum = Fin rat | PInf | NInf | NaN

text \<open>
  The binary exponent of a positive rational: \<open>ilog2 x = e\<close> when
  \<open>2 ^ e \<le> x < 2 ^ (e + 1)\<close>.
\<close>

definition ilog2 :: "rat \<Rightarrow> int" where
  "ilog2 x = (if 1 \<le> x then bitlen \<lfloor>x\<rfloor> - 1 else - bitlen (\<lceil>1 / x\<rceil> - 1))"

text \<open>The nearest integer, a tie going to the even one.\<close>

definition rne :: "rat \<Rightarrow> int" where
  "rne x =
     (let f = \<lfloor>x\<rfloor>; r = x - of_int f
      in if r < 1 / 2 then f
         else if 1 / 2 < r then f + 1
         else if even f then f else f + 1)"

text \<open>
  Rounding to binary64: 53 bits of significand at the exponent of the number, exponents
  from -1022 (below it the spacing stays \<open>2 ^ -1074\<close>: subnormal numbers) to 1023 (a
  result of \<open>2 ^ 1024\<close> or more is infinite).
\<close>

definition rnd64 :: "rat \<Rightarrow> jsnum" where
  "rnd64 x =
     (if x = 0 then Fin 0
      else
        let e = max (ilog2 \<bar>x\<bar>) (- 1022);
            n = rne (\<bar>x\<bar> / 2 powi (e - 52))
        in if 1023 < e \<or> (e = 1023 \<and> n = 2 ^ 53) then (if 0 < x then PInf else NInf)
           else Fin (sgn x * of_int n * 2 powi (e - 52)))"

fun js_neg :: "jsnum \<Rightarrow> jsnum" where
  "js_neg (Fin x) = Fin (- x)"
| "js_neg PInf = NInf"
| "js_neg NInf = PInf"
| "js_neg NaN = NaN"

fun js_add :: "jsnum \<Rightarrow> jsnum \<Rightarrow> jsnum" where
  "js_add (Fin x) (Fin y) = rnd64 (x + y)"
| "js_add NaN b = NaN"
| "js_add a NaN = NaN"
| "js_add PInf NInf = NaN"
| "js_add NInf PInf = NaN"
| "js_add PInf b = PInf"
| "js_add a PInf = PInf"
| "js_add NInf b = NInf"
| "js_add a NInf = NInf"

definition js_sub :: "jsnum \<Rightarrow> jsnum \<Rightarrow> jsnum" where
  "js_sub a b = js_add a (js_neg b)"

fun js_mul :: "jsnum \<Rightarrow> jsnum \<Rightarrow> jsnum" where
  "js_mul (Fin x) (Fin y) = rnd64 (x * y)"
| "js_mul NaN b = NaN"
| "js_mul a NaN = NaN"
| "js_mul PInf (Fin y) = (if y = 0 then NaN else if 0 < y then PInf else NInf)"
| "js_mul NInf (Fin y) = (if y = 0 then NaN else if 0 < y then NInf else PInf)"
| "js_mul (Fin x) PInf = (if x = 0 then NaN else if 0 < x then PInf else NInf)"
| "js_mul (Fin x) NInf = (if x = 0 then NaN else if 0 < x then NInf else PInf)"
| "js_mul PInf PInf = PInf"
| "js_mul NInf NInf = PInf"
| "js_mul PInf NInf = NInf"
| "js_mul NInf PInf = NInf"

fun js_div :: "jsnum \<Rightarrow> jsnum \<Rightarrow> jsnum" where
  "js_div (Fin x) (Fin y) =
     (if y = 0 then (if x = 0 then NaN else if 0 < x then PInf else NInf)
      else rnd64 (x / y))"
| "js_div NaN b = NaN"
| "js_div a NaN = NaN"
| "js_div (Fin x) PInf = Fin 0"
| "js_div (Fin x) NInf = Fin 0"
| "js_div PInf (Fin y) = (if 0 \<le> y then PInf else NInf)"
| "js_div NInf (Fin y) = (if 0 \<le> y then NInf else PInf)"
| "js_div PInf PInf = NaN"
| "js_div PInf NInf = NaN"
| "js_div NInf PInf = NaN"
| "js_div NInf NInf = NaN"

text \<open>The comparisons \<open><\<close> and \<open><=\<close>; every comparison with \<open>NaN\<close> is false.\<close>

fun js_lt :: "jsnum \<Rightarrow> jsnum \<Rightarrow> bool" where
  "js_lt (Fin x) (Fin y) = (x < y)"
| "js_lt NaN b = False"
| "js_lt a NaN = False"
| "js_lt a NInf = False"
| "js_lt PInf b = False"
| "js_lt NInf b = True"
| "js_lt a PInf = True"

fun js_le :: "jsnum \<Rightarrow> jsnum \<Rightarrow> bool" where
  "js_le (Fin x) (Fin y) = (x \<le> y)"
| "js_le NaN b = False"
| "js_le a NaN = False"
| "js_le NInf b = True"
| "js_le a PInf = True"
| "js_le a NInf = False"
| "js_le PInf b = False"

definition js_gt :: "jsnum \<Rightarrow> jsnum \<Rightarrow> bool" where
  "js_gt a b = js_lt b a"

definition js_ge :: "jsnum \<Rightarrow> jsnum \<Rightarrow> bool" where
  "js_ge a b = js_le b a"

text \<open>Strict equality \<open>===\<close> of two numbers: \<open>NaN\<close> equals nothing.\<close>

definition js_eq :: "jsnum \<Rightarrow> jsnum \<Rightarrow> bool" where
  "js_eq a b = (a \<noteq> NaN \<and> a = b)"

text \<open>
  \<open>Math.round\<close>: the nearest integer, a tie going up.  On a binary64 number the result
  is again one, so nothing is rounded here.
\<close>

fun Math_round :: "jsnum \<Rightarrow> jsnum" where
  "Math_round (Fin x) = Fin (of_int \<lfloor>x + 1 / 2\<rfloor>)"
| "Math_round PInf = PInf"
| "Math_round NInf = NInf"
| "Math_round NaN = NaN"

text \<open>\<open>Math.min\<close> of two numbers, and \<open>x || 0\<close> on a number (\<open>NaN\<close> and 0 are falsy).\<close>

definition Math_min :: "jsnum \<Rightarrow> jsnum \<Rightarrow> jsnum" where
  "Math_min a b = (if a = NaN \<or> b = NaN then NaN else if js_lt b a then b else a)"

definition or_zero :: "jsnum \<Rightarrow> jsnum" where
  "or_zero a = (if a = NaN \<or> a = Fin 0 then Fin 0 else a)"


section \<open>Points\<close>

text \<open>
  A projected point is the object \<open>{minutes, co2, type: 'projected'}\<close>; a measured point
  has the field \<open>time\<close> (the wall-clock string as entered) in front of these.
\<close>

datatype ptype = measured | projected

record point =
  minutes :: jsnum
  co2 :: jsnum
  type :: ptype

record mpoint = point +
  time :: string


section \<open>The projection\<close>

text \<open>
  \<open>buildProjectionSegment\<close> of \<open>CO2Monitor.jsx\<close>: a straight line from the latest reading
  to 550 ppm, at the rate of the last two readings.  \<open>measuredData.slice(-2)\<close> of an array
  of at least two elements is its last two elements.
\<close>

definition buildProjectionSegment :: "mpoint list \<Rightarrow> point list" where
  "buildProjectionSegment measuredData =
     (if length measuredData < 2 then []
      else
        let prevPoint = measuredData ! (length measuredData - 2);
            currentPoint = measuredData ! (length measuredData - 1);
            timeDiff = js_sub (minutes currentPoint) (minutes prevPoint)
        in if js_eq timeDiff (Fin 0) then []
           else
             let co2Diff = js_sub (co2 currentPoint) (co2 prevPoint);
                 rate = js_div co2Diff timeDiff
             in if js_ge rate (Fin 0) then []
                else
                  let currentCO2 = co2 currentPoint;
                      minutesToIdeal = Math_round (js_div (js_sub (Fin 550) currentCO2) rate)
                  in if js_le minutesToIdeal (Fin 0) then []
                     else
                       let endMinute = js_add (minutes currentPoint) minutesToIdeal
                       in [\<lparr>minutes = minutes currentPoint, co2 = currentCO2, type = projected\<rparr>,
                           \<lparr>minutes = endMinute, co2 = Fin 550, type = projected\<rparr>])"


section \<open>The status of a concentration\<close>

record status =
  status_text :: string
  status_color :: string
  status_bg :: string

definition getCO2Status :: "jsnum \<Rightarrow> status" where
  "getCO2Status c =
     (if js_le c (Fin 550)
      then \<lparr>status_text = ''Ideal'', status_color = ''text-green-400'', status_bg = ''bg-green-900/50''\<rparr>
      else if js_le c (Fin 800)
      then \<lparr>status_text = ''Good'', status_color = ''text-blue-400'', status_bg = ''bg-blue-900/50''\<rparr>
      else if js_le c (Fin 1000)
      then \<lparr>status_text = ''Concerning'', status_color = ''text-yellow-400'', status_bg = ''bg-yellow-900/50''\<rparr>
      else \<lparr>status_text = ''Poor'', status_color = ''text-red-400'', status_bg = ''bg-red-900/50''\<rparr>)"


section \<open>Strings\<close>

text \<open>
  A string is a list of characters; a character stands for the code unit of its number,
  so the strings here are those of code units below 256.
\<close>

text \<open>A character class \<open>[a-b]\<close> of a regular expression: the code units from \<open>a\<close> to \<open>b\<close>.\<close>

definition in_class :: "char \<Rightarrow> char \<Rightarrow> char \<Rightarrow> bool" where
  "in_class lo hi c = ((of_char lo :: nat) \<le> of_char c \<and> (of_char c :: nat) \<le> of_char hi)"

definition isDigit :: "char \<Rightarrow> bool" where
  "isDigit c = in_class (CHR ''0'') (CHR ''9'') c"

definition digitVal :: "char \<Rightarrow> nat" where
  "digitVal c = of_char c - 48"

definition decimal :: "string \<Rightarrow> int" where
  "decimal ds = foldl (\<lambda>n c. 10 * n + int (digitVal c)) 0 ds"

text \<open>
  The test of \<open>timePattern = /^([01]?[0-9]|2[0-3]):([0-5][0-9])$/\<close> on a string.  Between
  its anchors the expression matches four or five characters: an hour of one digit, or of
  two digits from 00 to 19, or from 20 to 23; a colon; a minute of two digits from 00 to 59.
\<close>

fun timePattern :: "string \<Rightarrow> bool" where
  "timePattern [h1, h2, c, m1, m2] =
     (((in_class (CHR ''0'') (CHR ''1'') h1 \<and> in_class (CHR ''0'') (CHR ''9'') h2) \<or>
       (h1 = CHR ''2'' \<and> in_class (CHR ''0'') (CHR ''3'') h2)) \<and>
      c = CHR '':'' \<and>
      in_class (CHR ''0'') (CHR ''5'') m1 \<and> in_class (CHR ''0'') (CHR ''9'') m2)"
| "timePattern [h2, c, m1, m2] =
     (in_class (CHR ''0'') (CHR ''9'') h2 \<and>
      c = CHR '':'' \<and>
      in_class (CHR ''0'') (CHR ''5'') m1 \<and> in_class (CHR ''0'') (CHR ''9'') m2)"
| "timePattern s = False"

text \<open>\<open>s.split(':')\<close>: the pieces of \<open>s\<close> between its colons, never an empty array.\<close>

fun split_colon :: "string \<Rightarrow> string list" where
  "split_colon [] = [[]]"
| "split_colon (c # cs) =
     (if c = CHR '':'' then [] # split_colon cs
      else (case split_colon cs of w # ws \<Rightarrow> (c # w) # ws | [] \<Rightarrow> [[c]]))"

text \<open>
  \<open>Number\<close> is applied to the pieces of a time string only.  On a string of decimal
  digits it is the number they denote, rounded to binary64, and the empty string is 0.
  JavaScript's \<open>Number\<close> also reads white space, signs, fractions, exponents and radix
  prefixes; no piece of a string that passed \<open>timePattern\<close> has any of these, and here
  every other string is \<open>NaN\<close>.
\<close>

definition Number :: "string \<Rightarrow> jsnum" where
  "Number s = (if list_all isDigit s then rnd64 (of_int (decimal s)) else NaN)"

text \<open>
  The destructuring \<open>const [hours, minutes] = arr\<close> and the reads \<open>arr[0]\<close>, \<open>arr[1]\<close>: an
  index past the end reads \<open>undefined\<close>, which the arithmetic that follows turns into \<open>NaN\<close>.
\<close>

definition elem :: "jsnum list \<Rightarrow> nat \<Rightarrow> jsnum" where
  "elem arr i = (if i < length arr then arr ! i else NaN)"

text \<open>\<open>hours * 60 + minutes\<close> of \<open>t.split(':').map(Number)\<close>.\<close>

definition totalMinutes :: "string \<Rightarrow> jsnum" where
  "totalMinutes t =
     (let arr = map Number (split_colon t)
      in js_add (js_mul (elem arr 0) (Fin 60)) (elem arr 1))"

text \<open>
  \<open>parseInt\<close> with no radix: leading white space is skipped, then a sign, then \<open>0x\<close> selects
  base 16; the longest run of digits of the base is read and its value rounded to
  binary64, and no digit at all is \<open>NaN\<close>.  The white space of JavaScript below code
  unit 256 is the space, tab, line feed, vertical tab, form feed, carriage return and the
  no-break space \<open>U+00A0\<close>.
\<close>

definition isSpace :: "char \<Rightarrow> bool" where
  "isSpace c =
     (c \<in> set [CHR '' '', CHR 0x09, CHR 0x0A, CHR 0x0B, CHR 0x0C, CHR 0x0D, CHR 0xA0])"

definition isHexDigit :: "char \<Rightarrow> bool" where
  "isHexDigit c =
     (isDigit c \<or> in_class (CHR ''a'') (CHR ''f'') c \<or> in_class (CHR ''A'') (CHR ''F'') c)"

definition hexVal :: "char \<Rightarrow> nat" where
  "hexVal c =
     (if isDigit c then digitVal c
      else if in_class (CHR ''a'') (CHR ''f'') c then of_char c - 87
      else of_char c - 55)"

definition hexadecimal :: "string \<Rightarrow> int" where
  "hexadecimal ds = foldl (\<lambda>n c. 16 * n + int (hexVal c)) 0 ds"

definition parseInt :: "string \<Rightarrow> jsnum" where
  "parseInt s =
     (let s1 = dropWhile isSpace s;
          sign = (if take 1 s1 = ''-'' then - 1 else (1 :: rat));
          s2 = (if take 1 s1 = ''-'' \<or> take 1 s1 = ''+'' then drop 1 s1 else s1)
      in if take 2 s2 = ''0x'' \<or> take 2 s2 = ''0X''
         then (let ds = takeWhile isHexDigit (drop 2 s2)
               in if ds = [] then NaN else rnd64 (sign * of_int (hexadecimal ds)))
         else (let ds = takeWhile isDigit s2
               in if ds = [] then NaN else rnd64 (sign * of_int (decimal ds))))"

text \<open>\<open>n.toString().padStart(2, '0')\<close> of a natural number.\<close>

definition digitChar :: "nat \<Rightarrow> char" where
  "digitChar d = char_of (48 + d)"

function toString :: "nat \<Rightarrow> string" where
  "toString n = (if n < 10 then [digitChar n] else toString (n div 10) @ [digitChar (n mod 10)])"
  by pat_completeness auto
termination
  by (relation "measure (\<lambda>n. n)") auto

declare toString.simps [simp del]

definition padStart2 :: "string \<Rightarrow> string" where
  "padStart2 s = replicate (2 - length s) (CHR ''0'') @ s"

text \<open>
  \<open>x.toString()\<close> of a number that is an integer (below \<open>10 ^ 21\<close> in size), \<open>NaN\<close> or
  infinite.  The digits of a fraction are not modelled: the one call of the component
  passes an integer from 0 to 23.
\<close>

fun Number_toString :: "jsnum \<Rightarrow> string" where
  "Number_toString (Fin q) =
     (if q < 0 then ''-'' @ toString (nat \<lfloor>- q\<rfloor>) else toString (nat \<lfloor>q\<rfloor>))"
| "Number_toString NaN = ''NaN''"
| "Number_toString PInf = ''Infinity''"
| "Number_toString NInf = ''-Infinity''"


section \<open>The state of the component and its handlers\<close>

record state =
  measuredPoints :: "mpoint list"
  projectedPoints :: "point list"
  currentTime :: string
  currentCO2 :: string

definition initial :: state where
  "initial = \<lparr>measuredPoints = [], projectedPoints = [], currentTime = [], currentCO2 = []\<rparr>"

text \<open>
  \<open>setCurrentTimeToNow\<close>; the hour and the minute of \<open>new Date()\<close> are its parameters.
\<close>

definition setCurrentTimeToNow :: "nat \<Rightarrow> nat \<Rightarrow> state \<Rightarrow> state" where
  "setCurrentTimeToNow hours mins s =
     s\<lparr>currentTime := padStart2 (toString hours) @ '':'' @ padStart2 (toString mins)\<rparr>"

text \<open>
  The \<open>onChange\<close> handler of the time field: from the text \<open>raw\<close> of the field
  (\<open>e.target.value\<close>) to the string it passes to \<open>setCurrentTime\<close>.  Everything but
  digits and colons is removed; three or four digits get a colon after the second; with a
  colon, the hour is limited to 23 and padded to two digits and the minute is cut to two
  digits and limited to 59.  Where the text has a colon \<open>split\<close> has a second piece; a
  missing piece would be \<open>undefined\<close>, falsy like the empty string.
\<close>

definition timeFieldChange :: "string \<Rightarrow> string" where
  "timeFieldChange raw =
     (let kept = filter (\<lambda>c. in_class (CHR ''0'') (CHR ''9'') c \<or> c = CHR '':'') raw;
          value = (if list_all isDigit kept \<and> (length kept = 3 \<or> length kept = 4)
                   then take 2 kept @ '':'' @ drop 2 kept
                   else kept)
      in if CHR '':'' \<in> set value
         then
           let parts = split_colon value;
               hours = (if 0 < length parts then parts ! 0 else []);
               mins = (if 1 < length parts then parts ! 1 else []);
               validHours =
                 (if hours \<noteq> []
                  then padStart2 (Number_toString (Math_min (or_zero (parseInt hours)) (Fin 23)))
                  else ''00'');
               cut = (if 2 < length mins then take 2 mins else mins);
               validMinutes =
                 (if mins \<noteq> []
                  then (if js_gt (parseInt cut) (Fin 59) then ''59'' else cut)
                  else [])
           in validHours @ '':'' @ validMinutes
         else value)"

text \<open>
  The concentration field is an input of type \<open>number\<close>: the value the browser hands to
  its \<open>onChange\<close> handler is the empty string unless the text of the field is a valid
  floating-point number: an optional minus sign, then digits with an optional fraction
  (a point and digits) or a fraction alone, then an optional exponent (\<open>e\<close> or \<open>E\<close>, an
  optional sign, digits).
\<close>

definition validExponent :: "string \<Rightarrow> bool" where
  "validExponent s =
     (s = [] \<or>
      ((take 1 s = ''e'' \<or> take 1 s = ''E'') \<and>
       (let ds = (if take 1 (drop 1 s) = ''-'' \<or> take 1 (drop 1 s) = ''+''
                  then drop 2 s else drop 1 s)
        in ds \<noteq> [] \<and> list_all isDigit ds)))"

definition validFloatingPointNumber :: "string \<Rightarrow> bool" where
  "validFloatingPointNumber s =
     (let unsigned = (if take 1 s = ''-'' then drop 1 s else s);
          whole = takeWhile isDigit unsigned;
          after = dropWhile isDigit unsigned
      in if take 1 after = ''.''
         then takeWhile isDigit (drop 1 after) \<noteq> [] \<and>
              validExponent (dropWhile isDigit (drop 1 after))
         else whole \<noteq> [] \<and> validExponent after)"

text \<open>
  The elapsed minutes that \<open>addDataPoint\<close> gives to a reading entered at \<open>t\<close>, after the
  points \<open>ms\<close>: 0 for the first reading, else the distance from the first reading's clock
  time, a negative distance moved forward by one day.
\<close>

definition elapsedMinutes :: "mpoint list \<Rightarrow> string \<Rightarrow> jsnum" where
  "elapsedMinutes ms t =
     (if length ms = 0 then Fin 0
      else
        let firstPointMinutes = totalMinutes (time (ms ! 0));
            e = js_sub (totalMinutes t) firstPointMinutes
        in if js_lt e (Fin 0) then js_add e (Fin (24 * 60)) else e)"

text \<open>
  \<open>addDataPoint\<close>.  The handler reads the state of the render it was made in and sets new
  values; where it sets \<open>projectedPoints\<close> twice, the later value stands.  The first
  component of the result is the message of \<open>alert\<close>, when the handler raises one.
\<close>

definition addDataPoint :: "state \<Rightarrow> string option \<times> state" where
  "addDataPoint s =
     (if currentTime s = [] \<or> currentCO2 s = [] then (None, s)
      else if \<not> timePattern (currentTime s)
      then (Some ''Please enter time in HH:MM format'', s)
      else
        let newPoint = \<lparr>minutes = elapsedMinutes (measuredPoints s) (currentTime s),
                         co2 = parseInt (currentCO2 s),
                         type = measured,
                         time = currentTime s\<rparr>;
            cleared = (if length (measuredPoints s) = 0 then projectedPoints s else []);
            updatedMeasured = measuredPoints s @ [newPoint]
        in (None,
            \<lparr>measuredPoints = updatedMeasured,
             projectedPoints =
               (if 2 \<le> length updatedMeasured then buildProjectionSegment updatedMeasured
                else cleared),
             currentTime = [],
             currentCO2 = []\<rparr>))"

definition clearData :: "state \<Rightarrow> state" where
  "clearData s = s\<lparr>measuredPoints := [], projectedPoints := []\<rparr>"

text \<open>\<open>removeLastPoint\<close>; \<open>measuredPoints.slice(0, -1)\<close> is the array without its last element.\<close>

definition removeLastPoint :: "state \<Rightarrow> state" where
  "removeLastPoint s =
     (if length (measuredPoints s) = 0 then s
      else
        let updatedMeasured = butlast (measuredPoints s)
        in s\<lparr>measuredPoints := updatedMeasured,
             projectedPoints :=
               (if 2 \<le> length updatedMeasured then buildProjectionSegment updatedMeasured
                else [])\<rparr>)"


section \<open>The estimate shown in the status panel\<close>

text \<open>
  The component computes \<open>timeToIdeal\<close> and \<open>currentRate\<close> at every render; both stay
  \<open>null\<close> (here \<open>None\<close>) unless there are two readings, the latest above 550 ppm, and
  the slope of the last two is negative.  The slope is not guarded against a zero time
  difference.
\<close>

definition slope :: "mpoint list \<Rightarrow> jsnum" where
  "slope ms =
     (let latestMeasured = ms ! (length ms - 1);
          secondLast = ms ! (length ms - 2)
      in js_div (js_sub (co2 latestMeasured) (co2 secondLast))
                (js_sub (minutes latestMeasured) (minutes secondLast)))"

definition timeToIdeal :: "mpoint list \<Rightarrow> jsnum option" where
  "timeToIdeal ms =
     (if 2 \<le> length ms \<and> js_gt (co2 (ms ! (length ms - 1))) (Fin 550)
      then (if js_lt (slope ms) (Fin 0)
            then Some (Math_round (js_div (js_sub (Fin 550) (co2 (ms ! (length ms - 1)))) (slope ms)))
            else None)
      else None)"

definition currentRate :: "mpoint list \<Rightarrow> jsnum option" where
  "currentRate ms =
     (if 2 \<le> length ms \<and> js_gt (co2 (ms ! (length ms - 1))) (Fin 550)
      then (if js_lt (slope ms) (Fin 0)
            then Some (js_mul (js_neg (slope ms)) (Fin 60))
            else None)
      else None)"


section \<open>Sessions and the strict time format\<close>

text \<open>
  The states of a session: the component starts with no points and empty fields; the
  user types into the two fields (any string: more than the input handlers let through),
  presses Now, Add, Clear All or Remove Last.
\<close>

inductive reachable :: "state \<Rightarrow> bool" where
  start: "reachable initial"
| typeTime: "reachable s \<Longrightarrow> reachable (s\<lparr>currentTime := v\<rparr>)"
| typeCO2: "reachable s \<Longrightarrow> reachable (s\<lparr>currentCO2 := v\<rparr>)"
| now: "reachable s \<Longrightarrow> reachable (setCurrentTimeToNow hours mins s)"
| add: "reachable s \<Longrightarrow> reachable (snd (addDataPoint s))"
| clear: "reachable s \<Longrightarrow> reachable (clearData s)"
| remove: "reachable s \<Longrightarrow> reachable (removeLastPoint s)"

text \<open>
  The states the page itself reaches: the time field passes through its handler, the Now
  button writes an hour below 24 and a minute below 60, and the concentration field
  delivers the empty string or a valid floating-point number.
\<close>

inductive page :: "state \<Rightarrow> bool" where
  pageStart: "page initial"
| pageTime: "page s \<Longrightarrow> page (s\<lparr>currentTime := timeFieldChange raw\<rparr>)"
| pageCO2: "page s \<Longrightarrow> v = [] \<or> validFloatingPointNumber v \<Longrightarrow> page (s\<lparr>currentCO2 := v\<rparr>)"
| pageNow: "page s \<Longrightarrow> hours < 24 \<Longrightarrow> mins < 60 \<Longrightarrow> page (setCurrentTimeToNow hours mins s)"
| pageAdd: "page s \<Longrightarrow> page (snd (addDataPoint s))"
| pageClear: "page s \<Longrightarrow> page (clearData s)"
| pageRemove: "page s \<Longrightarrow> page (removeLastPoint s)"

text \<open>
  The invariant of the measured points: every time passed the pattern, every elapsed
  time is a whole minute of one day, and the first point is the origin.
\<close>

definition well_timed :: "mpoint list \<Rightarrow> bool" where
  "well_timed ms =
     ((\<forall>p \<in> set ms. timePattern (time p) \<and> (\<exists>k < 1440. minutes p = Fin (of_nat k))) \<and>
      (ms \<noteq> [] \<longrightarrow> minutes (ms ! 0) = Fin 0))"

text \<open>
  The time format in the words of the specification, for comparison with \<open>timePattern\<close>:
  a strict 24-hour pattern of two digits for the hour, 00 to 23, a colon, and two digits
  for the minute, 00 to 59.
\<close>

fun spec_strictTime :: "string \<Rightarrow> bool" where
  "spec_strictTime [h1, h2, c, m1, m2] =
     (isDigit h1 \<and> isDigit h2 \<and> c = CHR '':'' \<and> isDigit m1 \<and> isDigit m2 \<and>
      10 * digitVal h1 + digitVal h2 \<le> 23 \<and> 10 * digitVal m1 + digitVal m2 \<le> 59)"
| "spec_strictTime s = False"


section \<open>Rounding\<close>

lemma rne_of_int [simp]: "rne (of_int m) = m"
  by (simp add: rne_def)

lemma ilog2_of_int: "1 \<le> k \<Longrightarrow> ilog2 (of_int k) = bitlen k - 1"
  by (simp add: ilog2_def)

text \<open>An integer below \<open>2 ^ 53\<close> in size is a binary64 number: rounding leaves it alone.\<close>

lemma rnd64_of_int:
  assumes "\<bar>k\<bar> < 2 ^ 53"
  shows "rnd64 (of_int k) = Fin (of_int k)"
proof (cases "k = 0")
  case True
  then show ?thesis by (simp add: rnd64_def)
next
  case False
  define a where "a = \<bar>k\<bar>"
  have a: "1 \<le> a" "a < 2 ^ 53"
    using False assms by (simp_all add: a_def)
  define e where "e = bitlen a - 1"
  have "bitlen a \<le> 53"
    using a(2) by (simp add: bitlen_le_iff_power)
  moreover have "1 \<le> bitlen a"
    using a(1) by (simp add: bitlen_ge_iff_power)
  ultimately have e: "0 \<le> e" "e \<le> 52"
    by (simp_all add: e_def)
  define j where "j = nat (52 - e)"
  have ej: "e - 52 = - int j"
    using e by (simp add: j_def)
  have q: "(2 :: rat) powi (e - 52) = 1 / 2 ^ j"
    unfolding ej by (simp add: power_int_minus_divide)
  have abs: "\<bar>rat_of_int k\<bar> = of_int a"
    by (simp add: a_def)
  have il: "ilog2 \<bar>rat_of_int k\<bar> = e"
    unfolding abs e_def using a(1) by (rule ilog2_of_int)
  have mx: "max e (- 1022) = e"
    using e by simp
  have n: "rne (\<bar>rat_of_int k\<bar> / 2 powi (e - 52)) = a * 2 ^ j"
  proof -
    have "\<bar>rat_of_int k\<bar> / 2 powi (e - 52) = of_int (a * 2 ^ j)"
      unfolding abs q by simp
    then show ?thesis by (simp only: rne_of_int)
  qed
  have no: "\<not> (1023 < e \<or> (e = 1023 \<and> a * 2 ^ j = 2 ^ 53))"
    using e by simp
  have val: "sgn (rat_of_int k) * of_int (a * 2 ^ j) * 2 powi (e - 52) = of_int k"
  proof -
    have "sgn (rat_of_int k) * of_int a = of_int k"
      unfolding a_def by (simp add: sgn_if)
    then show ?thesis unfolding q by simp
  qed
  have nz: "rat_of_int k \<noteq> 0" using False by simp
  show ?thesis
    unfolding rnd64_def Let_def il mx n
    using no nz val by (simp only: if_False)
qed

lemma rnd64_0 [simp]: "rnd64 0 = Fin 0"
  by (simp add: rnd64_def)

lemma rnd64_1 [simp]: "rnd64 1 = Fin 1"
  using rnd64_of_int [of 1] by simp

lemma rnd64_numeral [simp]:
  "(numeral n :: int) < 2 ^ 53 \<Longrightarrow> rnd64 (numeral n) = Fin (numeral n)"
  using rnd64_of_int [of "numeral n"] by simp

lemma rnd64_neg_numeral [simp]:
  "(numeral n :: int) < 2 ^ 53 \<Longrightarrow> rnd64 (- numeral n) = Fin (- numeral n)"
  using rnd64_of_int [of "- numeral n"] by simp

lemma rnd64_of_nat: "n < 2 ^ 53 \<Longrightarrow> rnd64 (of_nat n) = Fin (of_nat n)"
  using rnd64_of_int [of "int n"] by simp

text \<open>The quotients of the concrete readings below.\<close>

lemma rnd64_quarter: "rnd64 (1 / 4) = Fin (1 / 4)"
  by code_simp

lemma rnd64_25_2: "rnd64 (25 / 2) = Fin (25 / 2)"
  by code_simp

lemma js_sub_Fin [simp]: "js_sub (Fin x) (Fin y) = rnd64 (x - y)"
  by (simp add: js_sub_def)

lemma js_eq_Fin [simp]: "js_eq (Fin x) (Fin y) = (x = y)"
  by (simp add: js_eq_def)

lemma js_ge_Fin [simp]: "js_ge (Fin x) (Fin y) = (y \<le> x)"
  by (simp add: js_ge_def)

lemma js_gt_Fin [simp]: "js_gt (Fin x) (Fin y) = (y < x)"
  by (simp add: js_gt_def)

lemma floor_rat_numeral_div [simp]:
  "\<lfloor>numeral a / numeral b :: rat\<rfloor> = numeral a div numeral b"
  using floor_divide_of_int_eq [of "numeral a" "numeral b", where ?'a = rat] by simp

lemma floor_rat_neg_numeral_div [simp]:
  "\<lfloor>- (numeral a / numeral b) :: rat\<rfloor> = - numeral a div numeral b"
  using floor_divide_of_int_eq [of "- numeral a" "numeral b", where ?'a = rat] by simp

lemma floor_rat_one_div [simp]:
  "\<lfloor>1 / numeral b :: rat\<rfloor> = 1 div numeral b"
  using floor_divide_of_int_eq [of 1 "numeral b", where ?'a = rat] by simp


section \<open>The projection\<close>

lemma last_two_nth:
  "(ms @ [p, q]) ! (length (ms @ [p, q]) - 2) = p"
  "(ms @ [p, q]) ! (length (ms @ [p, q]) - 1) = q"
  by (simp_all add: nth_append)

text \<open>A rounded time to target is 0 or less exactly when the time is below one half.\<close>

lemma round_half_pos: "(\<lfloor>x + 1 / 2\<rfloor> \<le> 0) = (x < (1 / 2 :: rat))"
proof -
  have "(\<lfloor>x + 1 / 2\<rfloor> \<le> 0) = (\<lfloor>x + 1 / 2\<rfloor> < 1)" by linarith
  also have "\<dots> = (x + 1 / 2 < 1)" by (simp add: floor_less_iff)
  also have "\<dots> = (x < 1 / 2)" by linarith
  finally show ?thesis .
qed

lemma Math_round_le_0: "js_le (Math_round a) (Fin 0) = js_lt a (Fin (1 / 2))"
proof (cases a)
  case (Fin x)
  have "(rat_of_int \<lfloor>x + 1 / 2\<rfloor> \<le> 0) = (\<lfloor>x + 1 / 2\<rfloor> \<le> 0)"
    by (rule of_int_le_0_iff)
  then show ?thesis
    unfolding Fin by (simp only: Math_round.simps js_le.simps js_lt.simps round_half_pos)
qed simp_all

lemma js_le_half_not_lt: "js_le (Fin (1 / 2)) a \<Longrightarrow> \<not> js_lt a (Fin (1 / 2))"
  by (cases a) simp_all

lemma js_lt_not_ge: "js_lt a (Fin 0) \<Longrightarrow> \<not> js_ge a (Fin 0)"
  by (cases a) (simp_all add: js_ge_def)

text \<open>
  The guards of \<open>buildProjectionSegment\<close> on the last two readings, whatever numbers
  they carry.
\<close>

lemma buildProjectionSegment_snoc2:
  "buildProjectionSegment (ms @ [p, q]) =
     (if js_eq (js_sub (minutes q) (minutes p)) (Fin 0) then []
      else if js_ge (js_div (js_sub (co2 q) (co2 p)) (js_sub (minutes q) (minutes p))) (Fin 0) then []
      else if js_le (Math_round (js_div (js_sub (Fin 550) (co2 q))
                (js_div (js_sub (co2 q) (co2 p)) (js_sub (minutes q) (minutes p))))) (Fin 0)
      then []
      else [\<lparr>minutes = minutes q, co2 = co2 q, type = projected\<rparr>,
            \<lparr>minutes = js_add (minutes q) (Math_round (js_div (js_sub (Fin 550) (co2 q))
                (js_div (js_sub (co2 q) (co2 p)) (js_sub (minutes q) (minutes p))))),
             co2 = Fin 550, type = projected\<rparr>])"
proof -
  have len: "\<not> length (ms @ [p, q]) < 2" by simp
  show ?thesis
    unfolding buildProjectionSegment_def last_two_nth Let_def
    using len by (simp only: if_False)
qed

text \<open>
  C1, as the specification states it, fails twice.  With the readings (0 min, 555 ppm) and
  (1 min, 551 ppm) the rate is -4 ppm/min and the time to 550 ppm is a quarter of a
  minute, which is positive; the code rounds it to 0 minutes and returns no projection.
  With the readings (0 min, 900 ppm) and (3 min, 800 ppm) the claim's end minute,
  \<open>round (3 + 7.5)\<close>, is 11, also when \<open>3 + 7.499999999999999\<close> is computed in binary64;
  the code rounds the time to target alone, \<open>Math.round (7.499999999999999) = 7\<close>, and
  ends the segment at minute 10.
\<close>

theorem buildProjection_positive_unrounded_counterexample:
  "(551 - 555) / (1 - 0) < (0 :: rat) \<and>
   (0 :: rat) < (550 - 551) / ((551 - 555) / (1 - 0)) \<and>
   buildProjectionSegment
     [\<lparr>minutes = Fin 0, co2 = Fin 555, type = measured, time = ''10:00''\<rparr>,
      \<lparr>minutes = Fin 1, co2 = Fin 551, type = measured, time = ''10:01''\<rparr>] = [] \<and>
   buildProjectionSegment
     [\<lparr>minutes = Fin 0, co2 = Fin 555, type = measured, time = ''10:00''\<rparr>,
      \<lparr>minutes = Fin 1, co2 = Fin 551, type = measured, time = ''10:01''\<rparr>] \<noteq>
     [\<lparr>minutes = Fin 1, co2 = Fin 551, type = projected\<rparr>,
      \<lparr>minutes = Fin (of_int (round (1 + (550 - 551) / ((551 - 555) / (1 - 0)) :: rat))),
       co2 = Fin 550, type = projected\<rparr>] \<and>
   round (3 + (550 - 800) / ((800 - 900) / (3 - 0)) :: rat) = 11 \<and>
   Math_round (js_add (Fin 3)
     (js_div (js_sub (Fin 550) (Fin 800)) (js_div (js_sub (Fin 800) (Fin 900)) (js_sub (Fin 3) (Fin 0))))) =
     Fin 11 \<and>
   buildProjectionSegment
     [\<lparr>minutes = Fin 0, co2 = Fin 900, type = measured, time = ''10:00''\<rparr>,
      \<lparr>minutes = Fin 3, co2 = Fin 800, type = measured, time = ''10:03''\<rparr>] =
     [\<lparr>minutes = Fin 3, co2 = Fin 800, type = projected\<rparr>,
      \<lparr>minutes = Fin 10, co2 = Fin 550, type = projected\<rparr>]"
proof -
  have a: "(551 - 555) / (1 - 0) < (0 :: rat)"
    and b: "(0 :: rat) < (550 - 551) / ((551 - 555) / (1 - 0))"
    and c: "round (3 + (550 - 800) / ((800 - 900) / (3 - 0)) :: rat) = 11"
    by (simp_all add: round_def)
  have d: "buildProjectionSegment
     [\<lparr>minutes = Fin 0, co2 = Fin 555, type = measured, time = ''10:00''\<rparr>,
      \<lparr>minutes = Fin 1, co2 = Fin 551, type = measured, time = ''10:01''\<rparr>] = []"
    by code_simp
  have e: "Math_round (js_add (Fin 3)
     (js_div (js_sub (Fin 550) (Fin 800)) (js_div (js_sub (Fin 800) (Fin 900)) (js_sub (Fin 3) (Fin 0))))) =
     Fin 11"
    by code_simp
  have f: "buildProjectionSegment
     [\<lparr>minutes = Fin 0, co2 = Fin 900, type = measured, time = ''10:00''\<rparr>,
      \<lparr>minutes = Fin 3, co2 = Fin 800, type = measured, time = ''10:03''\<rparr>] =
     [\<lparr>minutes = Fin 3, co2 = Fin 800, type = projected\<rparr>,
      \<lparr>minutes = Fin 10, co2 = Fin 550, type = projected\<rparr>]"
    by code_simp
  show ?thesis
    unfolding d using a b c e f by simp
qed

text \<open>
  C1, amended: for every pair of readings (previous, latest) on a non-degenerate interval
  whose rate, the binary64 quotient \<open>(latest.co2 - previous.co2) / (latest.minutes -
  previous.minutes)\<close>, is negative and whose time to target, the binary64 quotient
  \<open>(550 - latest.co2) / rate\<close>, is at least half a minute (so that it rounds to 1 minute
  or more), \<open>buildProjectionSegment\<close> returns exactly two points: the latest reading, and
  550 ppm at the minute \<open>latest.minutes + Math.round (time to target)\<close>.  Older readings
  \<open>ms\<close> in front of the pair change nothing.
\<close>

theorem buildProjection_two_points:
  assumes "\<not> js_eq (js_sub (minutes latest) (minutes previous)) (Fin 0)"
    and "rate = js_div (js_sub (co2 latest) (co2 previous)) (js_sub (minutes latest) (minutes previous))"
    and "js_lt rate (Fin 0)"
    and "minutesToTarget = js_div (js_sub (Fin 550) (co2 latest)) rate"
    and "js_le (Fin (1 / 2)) minutesToTarget"
  shows "buildProjectionSegment (ms @ [previous, latest]) =
     [\<lparr>minutes = minutes latest, co2 = co2 latest, type = projected\<rparr>,
      \<lparr>minutes = js_add (minutes latest) (Math_round minutesToTarget),
       co2 = Fin 550, type = projected\<rparr>]"
proof -
  have "\<not> js_ge rate (Fin 0)"
    using assms(3) by (rule js_lt_not_ge)
  moreover have "\<not> js_le (Math_round minutesToTarget) (Fin 0)"
    unfolding Math_round_le_0 using assms(5) by (rule js_le_half_not_lt)
  ultimately show ?thesis
    using assms(1)
    unfolding assms(4) assms(2) buildProjectionSegment_snoc2
    by (simp only: if_False)
qed

theorem buildProjection_two_points_witness:
  "buildProjectionSegment
     [\<lparr>minutes = Fin 0, co2 = Fin 1000, type = measured, time = ''09:00''\<rparr>,
      \<lparr>minutes = Fin 5, co2 = Fin 900, type = measured, time = ''09:05''\<rparr>,
      \<lparr>minutes = Fin 8, co2 = Fin 800, type = measured, time = ''09:08''\<rparr>] =
     [\<lparr>minutes = Fin 8, co2 = Fin 800, type = projected\<rparr>,
      \<lparr>minutes = Fin 15, co2 = Fin 550, type = projected\<rparr>]"
proof -
  let ?p = "\<lparr>minutes = Fin 5, co2 = Fin 900, type = measured, time = ''09:05''\<rparr>"
  let ?q = "\<lparr>minutes = Fin 8, co2 = Fin 800, type = measured, time = ''09:08''\<rparr>"
  have td: "\<not> js_eq (js_sub (minutes ?q) (minutes ?p)) (Fin 0)"
    by code_simp
  have rate: "Fin (- (4691249611844267 / 140737488355328)) =
      js_div (js_sub (co2 ?q) (co2 ?p)) (js_sub (minutes ?q) (minutes ?p))"
    by code_simp
  have neg: "js_lt (Fin (- (4691249611844267 / 140737488355328))) (Fin 0)"
    by simp
  have mtt: "Fin (8444249301319679 / 1125899906842624) =
      js_div (js_sub (Fin 550) (co2 ?q)) (Fin (- (4691249611844267 / 140737488355328)))"
    by code_simp
  have half: "js_le (Fin (1 / 2)) (Fin (8444249301319679 / 1125899906842624))"
    by simp
  have fin: "js_add (minutes ?q) (Math_round (Fin (8444249301319679 / 1125899906842624))) = Fin 15"
    by code_simp
  show ?thesis
    using buildProjection_two_points [OF td rate neg mtt half,
        of "[\<lparr>minutes = Fin 0, co2 = Fin 1000, type = measured, time = ''09:00''\<rparr>]"]
    unfolding fin by simp
qed


text \<open>
  C2, as the specification states it, fails: for the readings (0 min, 1000 ppm) and
  (10 min, 800 ppm) the code's time to target is 12.5 minutes, not 22.5, and the segment
  ends at minute 23, not 33.
\<close>

theorem spec_example_end_minute_counterexample:
  "buildProjectionSegment
     [\<lparr>minutes = Fin 0, co2 = Fin 1000, type = measured, time = ''12:00''\<rparr>,
      \<lparr>minutes = Fin 10, co2 = Fin 800, type = measured, time = ''12:10''\<rparr>] \<noteq>
     [\<lparr>minutes = Fin 10, co2 = Fin 800, type = projected\<rparr>,
      \<lparr>minutes = Fin 33, co2 = Fin 550, type = projected\<rparr>] \<and>
   js_div (js_sub (Fin 550) (Fin 800))
     (slope [\<lparr>minutes = Fin 0, co2 = Fin 1000, type = measured, time = ''12:00''\<rparr>,
             \<lparr>minutes = Fin 10, co2 = Fin 800, type = measured, time = ''12:10''\<rparr>]) \<noteq>
     Fin (45 / 2)"
  by (simp add: buildProjectionSegment_def slope_def Let_def rnd64_25_2)

text \<open>
  C2, amended: for the two readings (0 min, 1000 ppm) and (10 min, 800 ppm) the rate is
  -20 ppm/min, the time to 550 ppm from the latest reading is (550 - 800) / -20 = 12.5
  minutes, which rounds to 13, the end minute is 10 + 13 = 23, and
  \<open>buildProjectionSegment\<close> returns exactly the points (10, 800) and (23, 550).
\<close>

theorem spec_example_projection:
  "slope [\<lparr>minutes = Fin 0, co2 = Fin 1000, type = measured, time = ''12:00''\<rparr>,
          \<lparr>minutes = Fin 10, co2 = Fin 800, type = measured, time = ''12:10''\<rparr>] = Fin (- 20) \<and>
   js_div (js_sub (Fin 550) (Fin 800)) (Fin (- 20)) = Fin (25 / 2) \<and>
   Math_round (Fin (25 / 2)) = Fin 13 \<and>
   js_add (Fin 10) (Fin 13) = Fin 23 \<and>
   buildProjectionSegment
     [\<lparr>minutes = Fin 0, co2 = Fin 1000, type = measured, time = ''12:00''\<rparr>,
      \<lparr>minutes = Fin 10, co2 = Fin 800, type = measured, time = ''12:10''\<rparr>] =
     [\<lparr>minutes = Fin 10, co2 = Fin 800, type = projected\<rparr>,
      \<lparr>minutes = Fin 23, co2 = Fin 550, type = projected\<rparr>]"
  by (simp add: buildProjectionSegment_def slope_def Let_def rnd64_25_2)

text \<open>
  C3, as the specification states it, fails in one direction: the readings (0 min, 568 ppm)
  and (2 min, 552 ppm) are two minutes apart, their rate is -8 ppm/min, the time to target
  is a quarter of a minute, which is positive, and yet the code returns no projection.
\<close>

theorem buildProjection_empty_counterexample:
  "(2 :: rat) \<noteq> 0 \<and>
   \<not> (0 :: rat) \<le> (552 - 568) / (2 - 0) \<and>
   \<not> (550 - 552) / ((552 - 568) / (2 - 0)) \<le> (0 :: rat) \<and>
   buildProjectionSegment
     [\<lparr>minutes = Fin 0, co2 = Fin 568, type = measured, time = ''08:00''\<rparr>,
      \<lparr>minutes = Fin 2, co2 = Fin 552, type = measured, time = ''08:02''\<rparr>] = []"
  by (simp add: buildProjectionSegment_def Let_def rnd64_quarter)

text \<open>
  C3, amended: for every pair of readings (previous, latest), whatever numbers they
  carry, \<open>buildProjectionSegment\<close> returns the empty sequence if and only if the two
  readings share their elapsed minutes, or the rate is 0 or more, or the time to target
  \<open>(550 - latest.co2) / rate\<close> is below half a minute (it rounds to 0 or less; this
  includes every time to target that is 0 or negative).  The quotients are those of the
  code, in binary64, and the comparisons are those of the code: with a reading that is
  \<open>NaN\<close> none of the three holds and the result is not empty.  The function is total.
\<close>

theorem buildProjection_empty_iff:
  assumes "rate = js_div (js_sub (co2 latest) (co2 previous)) (js_sub (minutes latest) (minutes previous))"
    and "minutesToTarget = js_div (js_sub (Fin 550) (co2 latest)) rate"
  shows "(buildProjectionSegment (ms @ [previous, latest]) = [] \<longleftrightarrow>
       js_eq (js_sub (minutes latest) (minutes previous)) (Fin 0) \<or>
       js_ge rate (Fin 0) \<or>
       js_lt minutesToTarget (Fin (1 / 2))) \<and>
     js_lt minutesToTarget (Fin (1 / 2)) = js_le (Math_round minutesToTarget) (Fin 0)"
  unfolding assms buildProjectionSegment_snoc2 Math_round_le_0 by simp

theorem buildProjection_empty_iff_witness:
  "buildProjectionSegment
     [\<lparr>minutes = Fin 0, co2 = Fin 900, type = measured, time = ''08:00''\<rparr>,
      \<lparr>minutes = Fin 5, co2 = Fin 950, type = measured, time = ''08:05''\<rparr>] = [] \<and>
   js_ge (js_div (js_sub (Fin 950) (Fin 900)) (js_sub (Fin 5) (Fin 0))) (Fin 0) \<and>
   buildProjectionSegment
     [\<lparr>minutes = Fin 0, co2 = NaN, type = measured, time = ''08:00''\<rparr>,
      \<lparr>minutes = Fin 10, co2 = Fin 800, type = measured, time = ''08:10''\<rparr>] \<noteq> []"
proof -
  have ge: "js_ge (js_div (js_sub (Fin 950) (Fin 900)) (js_sub (Fin 5) (Fin 0))) (Fin 0)"
    by simp
  have nan: "\<not> js_eq (js_sub (Fin 10) (Fin 0)) (Fin 0)"
    "\<not> js_ge (js_div (js_sub (Fin 800) NaN) (js_sub (Fin 10) (Fin 0))) (Fin 0)"
    "\<not> js_lt (js_div (js_sub (Fin 550) (Fin 800))
          (js_div (js_sub (Fin 800) NaN) (js_sub (Fin 10) (Fin 0)))) (Fin (1 / 2))"
    by (simp_all add: js_sub_def js_ge_def)
  show ?thesis
    using
      buildProjection_empty_iff [OF refl refl,
        of "[]" "\<lparr>minutes = Fin 0, co2 = Fin 900, type = measured, time = ''08:00''\<rparr>"
           "\<lparr>minutes = Fin 5, co2 = Fin 950, type = measured, time = ''08:05''\<rparr>"]
      buildProjection_empty_iff [OF refl refl,
        of "[]" "\<lparr>minutes = Fin 0, co2 = NaN, type = measured, time = ''08:00''\<rparr>"
           "\<lparr>minutes = Fin 10, co2 = Fin 800, type = measured, time = ''08:10''\<rparr>"]
      ge nan
    by simp
qed


section \<open>The estimate\<close>

lemma slope_snoc2:
  "slope (ms @ [p, q]) = js_div (js_sub (co2 q) (co2 p)) (js_sub (minutes q) (minutes p))"
  unfolding slope_def last_two_nth Let_def ..

lemma not_gt_iff_le_or_NaN: "\<not> js_gt c (Fin 550) \<longleftrightarrow> js_le c (Fin 550) \<or> c = NaN"
  by (cases c) (auto simp: js_gt_def)

lemma not_lt_iff_ge_or_NaN: "\<not> js_lt r (Fin 0) \<longleftrightarrow> js_ge r (Fin 0) \<or> r = NaN"
  by (cases r) (auto simp: js_ge_def)

lemma rate_NaN: "js_div (js_sub NaN b) d = NaN"
  by (simp add: js_sub_def)

text \<open>When the estimate is null, in the terms of the code and in those of the claim.\<close>

lemma estimate_guard:
  assumes "rate = js_div (js_sub (co2 q) (co2 p)) (js_sub (minutes q) (minutes p))"
  shows "(2 \<le> length (ms @ [p, q]) \<and> js_gt (co2 q) (Fin 550)) \<and> js_lt rate (Fin 0) \<longleftrightarrow>
     \<not> (js_le (co2 q) (Fin 550) \<or> \<not> js_lt rate (Fin 0))"
proof (cases "co2 q = NaN")
  case True
  then have "rate = NaN" unfolding assms by (simp only: rate_NaN)
  then show ?thesis by simp
next
  case False
  then have "\<not> js_gt (co2 q) (Fin 550) \<longleftrightarrow> js_le (co2 q) (Fin 550)"
    by (simp add: not_gt_iff_le_or_NaN)
  then show ?thesis by auto
qed

text \<open>
  C6, as the specification states it, fails where the rate is \<open>NaN\<close>.  The page stores
  the concentration \<open>NaN\<close> for the text \<open>.5\<close>, a valid number that \<open>parseInt\<close> cannot
  read; with the readings (0 min, \<open>NaN\<close>) and (10 min, 800 ppm) the latest concentration
  is above 550, there are two readings and the rate is not 0 or more, yet the estimate
  is null, while the projection is built and ends at the minute \<open>NaN\<close>.  The same holds
  of two equal readings at the same minute, whose rate is \<open>0 / 0\<close>.
\<close>

theorem timeToIdeal_null_counterexample:
  "page (snd (addDataPoint
      (snd (addDataPoint
         (initial\<lparr>currentTime := timeFieldChange ''10:00'', currentCO2 := ''.5''\<rparr>))
       \<lparr>currentTime := timeFieldChange ''10:10'', currentCO2 := ''800''\<rparr>))) \<and>
   measuredPoints (snd (addDataPoint
      (snd (addDataPoint
         (initial\<lparr>currentTime := timeFieldChange ''10:00'', currentCO2 := ''.5''\<rparr>))
       \<lparr>currentTime := timeFieldChange ''10:10'', currentCO2 := ''800''\<rparr>))) =
     [\<lparr>minutes = Fin 0, co2 = NaN, type = measured, time = ''10:00''\<rparr>,
      \<lparr>minutes = Fin 10, co2 = Fin 800, type = measured, time = ''10:10''\<rparr>] \<and>
   timeToIdeal
     [\<lparr>minutes = Fin 0, co2 = NaN, type = measured, time = ''10:00''\<rparr>,
      \<lparr>minutes = Fin 10, co2 = Fin 800, type = measured, time = ''10:10''\<rparr>] = None \<and>
   \<not> js_le (Fin 800) (Fin 550) \<and>
   \<not> js_ge (js_div (js_sub (Fin 800) NaN) (js_sub (Fin 10) (Fin 0))) (Fin 0) \<and>
   buildProjectionSegment
     [\<lparr>minutes = Fin 0, co2 = NaN, type = measured, time = ''10:00''\<rparr>,
      \<lparr>minutes = Fin 10, co2 = Fin 800, type = measured, time = ''10:10''\<rparr>] =
     [\<lparr>minutes = Fin 10, co2 = Fin 800, type = projected\<rparr>,
      \<lparr>minutes = NaN, co2 = Fin 550, type = projected\<rparr>] \<and>
   timeToIdeal
     [\<lparr>minutes = Fin 5, co2 = Fin 800, type = measured, time = ''10:05''\<rparr>,
      \<lparr>minutes = Fin 5, co2 = Fin 800, type = measured, time = ''10:05''\<rparr>] = None \<and>
   \<not> js_ge (js_div (js_sub (Fin 800) (Fin 800)) (js_sub (Fin 5) (Fin 5))) (Fin 0)"
proof -
  let ?s = "snd (addDataPoint
      (snd (addDataPoint
         (initial\<lparr>currentTime := timeFieldChange ''10:00'', currentCO2 := ''.5''\<rparr>))
       \<lparr>currentTime := timeFieldChange ''10:10'', currentCO2 := ''800''\<rparr>))"
  have v: "''.5'' = [] \<or> validFloatingPointNumber ''.5''"
    "''800'' = [] \<or> validFloatingPointNumber ''800''"
    by code_simp+
  have reach: "page ?s"
    by (intro page.intros v)
  have ms: "measuredPoints ?s =
     [\<lparr>minutes = Fin 0, co2 = NaN, type = measured, time = ''10:00''\<rparr>,
      \<lparr>minutes = Fin 10, co2 = Fin 800, type = measured, time = ''10:10''\<rparr>]"
    by code_simp
  have rest: "timeToIdeal
     [\<lparr>minutes = Fin 0, co2 = NaN, type = measured, time = ''10:00''\<rparr>,
      \<lparr>minutes = Fin 10, co2 = Fin 800, type = measured, time = ''10:10''\<rparr>] = None"
   "\<not> js_le (Fin 800) (Fin 550)"
   "\<not> js_ge (js_div (js_sub (Fin 800) NaN) (js_sub (Fin 10) (Fin 0))) (Fin 0)"
   "buildProjectionSegment
     [\<lparr>minutes = Fin 0, co2 = NaN, type = measured, time = ''10:00''\<rparr>,
      \<lparr>minutes = Fin 10, co2 = Fin 800, type = measured, time = ''10:10''\<rparr>] =
     [\<lparr>minutes = Fin 10, co2 = Fin 800, type = projected\<rparr>,
      \<lparr>minutes = NaN, co2 = Fin 550, type = projected\<rparr>]"
   "timeToIdeal
     [\<lparr>minutes = Fin 5, co2 = Fin 800, type = measured, time = ''10:05''\<rparr>,
      \<lparr>minutes = Fin 5, co2 = Fin 800, type = measured, time = ''10:05''\<rparr>] = None"
   "\<not> js_ge (js_div (js_sub (Fin 800) (Fin 800)) (js_sub (Fin 5) (Fin 5))) (Fin 0)"
    by code_simp+
  show ?thesis
    using reach ms rest by (intro conjI)
qed

text \<open>
  C6, amended: with two or more readings, whatever numbers the last two carry,
  \<open>timeToIdeal\<close> and \<open>currentRate\<close> are null exactly when the latest concentration is 550
  or less or the rate of the last two readings is not negative, that is 0 or more or
  \<open>NaN\<close>; otherwise \<open>timeToIdeal\<close> is \<open>Math.round ((550 - latest.co2) / rate)\<close> and
  \<open>currentRate\<close> is \<open>- rate * 60\<close>, every operation in binary64.  With fewer than two
  readings both are null.  Where the estimate is not null the projection agrees with it:
  it is empty when the two readings share their minute or the estimate is 0 or less, and
  else it ends at the latest minute plus the estimate.  On an interval of length zero a
  falling concentration has the rate \<open>-Infinity\<close>, which gives 0 minutes and \<open>Infinity\<close> ppm
  per hour by the same two formulas.
\<close>

theorem timeToIdeal_estimate:
  assumes "rate = js_div (js_sub (co2 latest) (co2 previous)) (js_sub (minutes latest) (minutes previous))"
  shows
    "(timeToIdeal (ms @ [previous, latest]) = None \<longleftrightarrow>
        js_le (co2 latest) (Fin 550) \<or> \<not> js_lt rate (Fin 0)) \<and>
     (currentRate (ms @ [previous, latest]) = None \<longleftrightarrow>
        js_le (co2 latest) (Fin 550) \<or> \<not> js_lt rate (Fin 0)) \<and>
     (\<not> js_lt rate (Fin 0) \<longleftrightarrow> js_ge rate (Fin 0) \<or> rate = NaN) \<and>
     (\<not> (js_le (co2 latest) (Fin 550) \<or> \<not> js_lt rate (Fin 0)) \<longrightarrow>
        timeToIdeal (ms @ [previous, latest]) =
          Some (Math_round (js_div (js_sub (Fin 550) (co2 latest)) rate)) \<and>
        currentRate (ms @ [previous, latest]) = Some (js_mul (js_neg rate) (Fin 60))) \<and>
     (length short < 2 \<longrightarrow> timeToIdeal short = None \<and> currentRate short = None) \<and>
     (case timeToIdeal (ms @ [previous, latest]) of
        None \<Rightarrow> True
      | Some t \<Rightarrow>
          buildProjectionSegment (ms @ [previous, latest]) =
            (if js_eq (js_sub (minutes latest) (minutes previous)) (Fin 0) \<or> js_le t (Fin 0)
             then []
             else [\<lparr>minutes = minutes latest, co2 = co2 latest, type = projected\<rparr>,
                   \<lparr>minutes = js_add (minutes latest) t, co2 = Fin 550, type = projected\<rparr>]))"
proof -
  let ?ms = "ms @ [previous, latest]"
  have lat: "?ms ! (length ?ms - 1) = latest"
    by (rule last_two_nth)
  have sl: "slope ?ms = rate"
    unfolding assms by (rule slope_snoc2)
  note g = estimate_guard [OF assms, of ms]
  have tt: "timeToIdeal ?ms =
      (if js_le (co2 latest) (Fin 550) \<or> \<not> js_lt rate (Fin 0) then None
       else Some (Math_round (js_div (js_sub (Fin 550) (co2 latest)) rate)))"
    unfolding timeToIdeal_def lat sl using g by auto
  have cr: "currentRate ?ms =
      (if js_le (co2 latest) (Fin 550) \<or> \<not> js_lt rate (Fin 0) then None
       else Some (js_mul (js_neg rate) (Fin 60)))"
    unfolding currentRate_def lat sl using g by auto
  have short: "length short < 2 \<longrightarrow> timeToIdeal short = None \<and> currentRate short = None"
    by (simp add: timeToIdeal_def currentRate_def)
  have agree: "(case timeToIdeal ?ms of
        None \<Rightarrow> True
      | Some t \<Rightarrow>
          buildProjectionSegment ?ms =
            (if js_eq (js_sub (minutes latest) (minutes previous)) (Fin 0) \<or> js_le t (Fin 0)
             then []
             else [\<lparr>minutes = minutes latest, co2 = co2 latest, type = projected\<rparr>,
                   \<lparr>minutes = js_add (minutes latest) t, co2 = Fin 550, type = projected\<rparr>]))"
    unfolding tt buildProjectionSegment_snoc2 assms [symmetric]
    by (auto dest: js_lt_not_ge)
  show ?thesis
    using short agree not_lt_iff_ge_or_NaN [of rate]
    unfolding tt cr by simp
qed

theorem timeToIdeal_estimate_witness:
  "timeToIdeal
     [\<lparr>minutes = Fin 0, co2 = Fin 900, type = measured, time = ''12:00''\<rparr>,
      \<lparr>minutes = Fin 3, co2 = Fin 800, type = measured, time = ''12:03''\<rparr>] = Some (Fin 7) \<and>
   currentRate
     [\<lparr>minutes = Fin 0, co2 = Fin 900, type = measured, time = ''12:00''\<rparr>,
      \<lparr>minutes = Fin 3, co2 = Fin 800, type = measured, time = ''12:03''\<rparr>] =
     Some (Fin (2000 + 1 / 2 ^ 42)) \<and>
   buildProjectionSegment
     [\<lparr>minutes = Fin 0, co2 = Fin 900, type = measured, time = ''12:00''\<rparr>,
      \<lparr>minutes = Fin 3, co2 = Fin 800, type = measured, time = ''12:03''\<rparr>] =
     [\<lparr>minutes = Fin 3, co2 = Fin 800, type = projected\<rparr>,
      \<lparr>minutes = Fin 10, co2 = Fin 550, type = projected\<rparr>] \<and>
   timeToIdeal
     [\<lparr>minutes = Fin 5, co2 = Fin 900, type = measured, time = ''12:05''\<rparr>,
      \<lparr>minutes = Fin 5, co2 = Fin 800, type = measured, time = ''12:05''\<rparr>] = Some (Fin 0) \<and>
   currentRate
     [\<lparr>minutes = Fin 5, co2 = Fin 900, type = measured, time = ''12:05''\<rparr>,
      \<lparr>minutes = Fin 5, co2 = Fin 800, type = measured, time = ''12:05''\<rparr>] = Some PInf \<and>
   timeToIdeal [\<lparr>minutes = Fin 0, co2 = Fin 1000, type = measured, time = ''12:00''\<rparr>] = None"
proof -
  let ?p = "\<lparr>minutes = Fin 0, co2 = Fin 900, type = measured, time = ''12:00''\<rparr>"
  let ?q = "\<lparr>minutes = Fin 3, co2 = Fin 800, type = measured, time = ''12:03''\<rparr>"
  let ?p' = "\<lparr>minutes = Fin 5, co2 = Fin 900, type = measured, time = ''12:05''\<rparr>"
  let ?q' = "\<lparr>minutes = Fin 5, co2 = Fin 800, type = measured, time = ''12:05''\<rparr>"
  let ?r = "Fin (- (4691249611844267 / 140737488355328))"
  have rate: "?r = js_div (js_sub (co2 ?q) (co2 ?p)) (js_sub (minutes ?q) (minutes ?p))"
    by code_simp
  have rate': "NInf = js_div (js_sub (co2 ?q') (co2 ?p')) (js_sub (minutes ?q') (minutes ?p'))"
    by code_simp
  have falling: "\<not> (js_le (co2 ?q) (Fin 550) \<or> \<not> js_lt ?r (Fin 0))"
    "\<not> (js_le (co2 ?q') (Fin 550) \<or> \<not> js_lt NInf (Fin 0))"
    by simp_all
  have vals:
    "Math_round (js_div (js_sub (Fin 550) (co2 ?q)) ?r) = Fin 7"
    "js_mul (js_neg ?r) (Fin 60) = Fin (2000 + 1 / 2 ^ 42)"
    "Math_round (js_div (js_sub (Fin 550) (co2 ?q')) NInf) = Fin 0"
    "js_mul (js_neg NInf) (Fin 60) = PInf"
    by code_simp+
  have one: "timeToIdeal ([] @ [?p, ?q]) = Some (Fin 7) \<and>
      currentRate ([] @ [?p, ?q]) = Some (Fin (2000 + 1 / 2 ^ 42))"
    using timeToIdeal_estimate [OF rate, of "[]" "[]"] falling(1)
    unfolding vals by blast
  have two: "timeToIdeal ([] @ [?p', ?q']) = Some (Fin 0) \<and>
      currentRate ([] @ [?p', ?q']) = Some PInf"
    using timeToIdeal_estimate [OF rate', of "[]" "[]"] falling(2)
    unfolding vals by blast
  have three: "buildProjectionSegment [?p, ?q] =
     [\<lparr>minutes = Fin 3, co2 = Fin 800, type = projected\<rparr>,
      \<lparr>minutes = Fin 10, co2 = Fin 550, type = projected\<rparr>]"
    "timeToIdeal [\<lparr>minutes = Fin 0, co2 = Fin 1000, type = measured, time = ''12:00''\<rparr>] = None"
    by code_simp+
  show ?thesis
    using one two three by (simp only: append_Nil)
qed


section \<open>The tiers of the status\<close>

text \<open>
  C7: \<open>getCO2Status\<close> is a total function of the concentration with fixed thresholds,
  each tier closed at its upper end: a concentration \<open>c\<close> is Ideal exactly when
  \<open>c \<le> 550\<close>, Good exactly when \<open>550 < c \<le> 800\<close>, Concerning exactly when
  \<open>800 < c \<le> 1000\<close>, and Poor exactly when \<open>c > 1000\<close>; every number, finite or not, gets
  one of the four labels; 550 is Ideal, 551 Good, 1000 Concerning and 1001 Poor.
\<close>

theorem getCO2Status_tiers:
  "(status_text (getCO2Status (Fin c)) = ''Ideal'' \<longleftrightarrow> c \<le> 550) \<and>
   (status_text (getCO2Status (Fin c)) = ''Good'' \<longleftrightarrow> 550 < c \<and> c \<le> 800) \<and>
   (status_text (getCO2Status (Fin c)) = ''Concerning'' \<longleftrightarrow> 800 < c \<and> c \<le> 1000) \<and>
   (status_text (getCO2Status (Fin c)) = ''Poor'' \<longleftrightarrow> 1000 < c) \<and>
   status_text (getCO2Status x) \<in> {''Ideal'', ''Good'', ''Concerning'', ''Poor''} \<and>
   status_text (getCO2Status (Fin 550)) = ''Ideal'' \<and>
   status_text (getCO2Status (Fin 551)) = ''Good'' \<and>
   status_text (getCO2Status (Fin 1000)) = ''Concerning'' \<and>
   status_text (getCO2Status (Fin 1001)) = ''Poor''"
  by (simp add: getCO2Status_def)

theorem getCO2Status_tiers_witness:
  "status_text (getCO2Status (Fin 800)) = ''Good'' \<and>
   status_text (getCO2Status (Fin (1601 / 2))) = ''Concerning'' \<and>
   getCO2Status NaN =
     \<lparr>status_text = ''Poor'', status_color = ''text-red-400'', status_bg = ''bg-red-900/50''\<rparr>"
  using getCO2Status_tiers [of 800 NaN] getCO2Status_tiers [of "1601 / 2" NaN]
  by (simp add: getCO2Status_def)


section \<open>Time strings\<close>

lemma isDigit_iff: "isDigit c \<longleftrightarrow> 48 \<le> (of_char c :: nat) \<and> (of_char c :: nat) \<le> 57"
  by (simp add: isDigit_def in_class_def)

lemma isDigit_not_colon: "isDigit c \<Longrightarrow> c \<noteq> CHR '':''"
  by (auto simp: isDigit_iff)

lemma split_colon_5:
  assumes "isDigit h1" "isDigit h2" "isDigit m1" "isDigit m2"
  shows "split_colon [h1, h2, CHR '':'', m1, m2] = [[h1, h2], [m1, m2]]"
  using assms [THEN isDigit_not_colon] by simp

lemma split_colon_4:
  assumes "isDigit h2" "isDigit m1" "isDigit m2"
  shows "split_colon [h2, CHR '':'', m1, m2] = [[h2], [m1, m2]]"
  using assms [THEN isDigit_not_colon] by simp

lemma digitVal_le_9: "isDigit c \<Longrightarrow> digitVal c \<le> 9"
  by (auto simp: isDigit_iff digitVal_def)

lemma js_mul_nat:
  "a * b < 2 ^ 53 \<Longrightarrow> js_mul (Fin (of_nat a)) (Fin (of_nat b)) = Fin (of_nat (a * b))"
  using rnd64_of_nat [of "a * b"] by simp

lemma js_add_nat:
  "a + b < 2 ^ 53 \<Longrightarrow> js_add (Fin (of_nat a)) (Fin (of_nat b)) = Fin (of_nat (a + b))"
  using rnd64_of_nat [of "a + b"] by simp

lemma Number_1:
  assumes "isDigit a"
  shows "Number [a] = Fin (of_nat (digitVal a))"
proof -
  have "digitVal a < 2 ^ 53"
    using digitVal_le_9 [OF assms] by simp
  then have "rnd64 (of_nat (digitVal a)) = Fin (of_nat (digitVal a))"
    by (rule rnd64_of_nat)
  then show ?thesis
    using assms by (simp add: Number_def decimal_def)
qed

lemma Number_2:
  assumes "isDigit a" and "isDigit b"
  shows "Number [a, b] = Fin (of_nat (10 * digitVal a + digitVal b))"
proof -
  have "10 * digitVal a + digitVal b < 2 ^ 53"
    using assms [THEN digitVal_le_9] by simp
  then have "rnd64 (of_nat (10 * digitVal a + digitVal b)) =
      Fin (of_nat (10 * digitVal a + digitVal b))"
    by (rule rnd64_of_nat)
  then show ?thesis
    using assms by (simp add: Number_def decimal_def)
qed

lemma minutes_of_day:
  assumes "h \<le> 99" and "m \<le> 99"
  shows "js_add (js_mul (Fin (of_nat h)) (Fin 60)) (Fin (of_nat m)) = Fin (of_nat (h * 60 + m))"
proof -
  have "h * 60 < 2 ^ 53" "h * 60 + m < 2 ^ 53"
    using assms by simp_all
  then show ?thesis
    using js_mul_nat [of h 60] js_add_nat [of "h * 60" m] by simp
qed

lemma totalMinutes_5:
  assumes "isDigit h1" "isDigit h2" "isDigit m1" "isDigit m2"
  shows "totalMinutes [h1, h2, CHR '':'', m1, m2] =
     Fin (of_nat ((10 * digitVal h1 + digitVal h2) * 60 + (10 * digitVal m1 + digitVal m2)))"
proof -
  have sp: "split_colon [h1, h2, CHR '':'', m1, m2] = [[h1, h2], [m1, m2]]"
    using assms by (rule split_colon_5)
  have "totalMinutes [h1, h2, CHR '':'', m1, m2] =
      js_add (js_mul (Number [h1, h2]) (Fin 60)) (Number [m1, m2])"
    unfolding totalMinutes_def sp by (simp add: elem_def)
  also have "\<dots> = Fin (of_nat ((10 * digitVal h1 + digitVal h2) * 60 + (10 * digitVal m1 + digitVal m2)))"
    unfolding Number_2 [OF assms(1,2)] Number_2 [OF assms(3,4)]
    using assms [THEN digitVal_le_9] by (intro minutes_of_day) simp_all
  finally show ?thesis .
qed

lemma totalMinutes_4:
  assumes "isDigit h2" "isDigit m1" "isDigit m2"
  shows "totalMinutes [h2, CHR '':'', m1, m2] =
     Fin (of_nat (digitVal h2 * 60 + (10 * digitVal m1 + digitVal m2)))"
proof -
  have sp: "split_colon [h2, CHR '':'', m1, m2] = [[h2], [m1, m2]]"
    using assms by (rule split_colon_4)
  have "totalMinutes [h2, CHR '':'', m1, m2] =
      js_add (js_mul (Number [h2]) (Fin 60)) (Number [m1, m2])"
    unfolding totalMinutes_def sp by (simp add: elem_def)
  also have "\<dots> = Fin (of_nat (digitVal h2 * 60 + (10 * digitVal m1 + digitVal m2)))"
    unfolding Number_1 [OF assms(1)] Number_2 [OF assms(2,3)]
    using assms [THEN digitVal_le_9] by (intro minutes_of_day) simp_all
  finally show ?thesis .
qed

text \<open>The shapes of the strings that pass the pattern.\<close>

lemma timePattern_cases:
  assumes "timePattern t"
  obtains
    (two) h1 h2 m1 m2 where "t = [h1, h2, CHR '':'', m1, m2]"
      and "isDigit h1" "isDigit h2" "isDigit m1" "isDigit m2"
      and "10 * digitVal h1 + digitVal h2 \<le> 23" and "10 * digitVal m1 + digitVal m2 \<le> 59"
  | (one) h2 m1 m2 where "t = [h2, CHR '':'', m1, m2]"
      and "isDigit h2" "isDigit m1" "isDigit m2"
      and "digitVal h2 \<le> 9" and "10 * digitVal m1 + digitVal m2 \<le> 59"
  using assms
  by (cases t rule: timePattern.cases)
     (auto simp: isDigit_iff in_class_def digitVal_def)

lemma totalMinutes_bound:
  assumes "timePattern t"
  obtains n :: nat where "n < 1440" and "totalMinutes t = Fin (of_nat n)"
  using assms
proof (cases rule: timePattern_cases)
  case (two h1 h2 m1 m2)
  show ?thesis
  proof (rule that)
    show "totalMinutes t =
        Fin (of_nat ((10 * digitVal h1 + digitVal h2) * 60 + (10 * digitVal m1 + digitVal m2)))"
      unfolding two(1) using two(2-5) by (rule totalMinutes_5)
    show "(10 * digitVal h1 + digitVal h2) * 60 + (10 * digitVal m1 + digitVal m2) < 1440"
      using two(6,7) by simp
  qed
next
  case (one h2 m1 m2)
  show ?thesis
  proof (rule that)
    show "totalMinutes t = Fin (of_nat (digitVal h2 * 60 + (10 * digitVal m1 + digitVal m2)))"
      unfolding one(1) using one(2-4) by (rule totalMinutes_4)
    show "digitVal h2 * 60 + (10 * digitVal m1 + digitVal m2) < 1440"
      using one(5,6) by simp
  qed
qed


lemma elapsedMinutes_Fin:
  assumes "ms \<noteq> []"
    and "totalMinutes t = Fin (of_nat n)"
    and "totalMinutes (time (ms ! 0)) = Fin (of_nat n0)"
    and "n < 1440" and "n0 < 1440"
  shows "elapsedMinutes ms t =
     Fin (of_int (if int n - int n0 < 0 then int n - int n0 + 1440 else int n - int n0))"
proof -
  define d where "d = int n - int n0"
  have small: "\<bar>d\<bar> < 2 ^ 53" "\<bar>d + 1440\<bar> < 2 ^ 53"
    using assms(4,5) by (simp_all add: d_def)
  have diff: "js_sub (Fin (of_nat n)) (Fin (of_nat n0)) = Fin (of_int d)"
    using rnd64_of_int [OF small(1)] by (simp add: d_def)
  have moved: "js_add (Fin (of_int d)) (Fin (24 * 60)) = Fin (of_int (d + 1440))"
    using rnd64_of_int [OF small(2)] by simp
  have "elapsedMinutes ms t = Fin (of_int (if d < 0 then d + 1440 else d))"
    unfolding elapsedMinutes_def Let_def assms(2,3) diff moved
    using assms(1) by simp
  then show ?thesis
    unfolding d_def .
qed

lemma elapsedMinutes_range:
  assumes "timePattern t" and "ms \<noteq> [] \<Longrightarrow> timePattern (time (ms ! 0))"
  obtains k :: nat where "k < 1440" and "elapsedMinutes ms t = Fin (of_nat k)"
proof (cases "ms = []")
  case True
  then have "elapsedMinutes ms t = Fin (of_nat 0)" by (simp add: elapsedMinutes_def)
  then show ?thesis using that [of 0] by simp
next
  case False
  from assms(1) obtain n where n: "n < 1440" "totalMinutes t = Fin (of_nat n)"
    by (rule totalMinutes_bound)
  from assms(2) [OF False] obtain n0
    where n0: "n0 < 1440" "totalMinutes (time (ms ! 0)) = Fin (of_nat n0)"
    by (rule totalMinutes_bound)
  define d where "d = (if int n - int n0 < 0 then int n - int n0 + 1440 else int n - int n0)"
  have e: "elapsedMinutes ms t = Fin (of_int d)"
    unfolding d_def using False n(2) n0(2) n(1) n0(1) by (rule elapsedMinutes_Fin)
  have d: "0 \<le> d" "d < 1440"
    using n(1) n0(1) by (simp_all add: d_def)
  have "elapsedMinutes ms t = Fin (of_nat (nat d))"
    unfolding e using d(1) by simp
  moreover have "nat d < 1440"
    using d by linarith
  ultimately show ?thesis
    by (rule that [rotated])
qed


section \<open>Submissions\<close>

lemma addDataPoint_reject:
  assumes "currentTime s = [] \<or> currentCO2 s = [] \<or> \<not> timePattern (currentTime s)"
  shows "snd (addDataPoint s) = s"
  using assms by (auto simp: addDataPoint_def)

lemma addDataPoint_accept:
  assumes "currentTime s \<noteq> []" and "currentCO2 s \<noteq> []" and "timePattern (currentTime s)"
  shows "measuredPoints (snd (addDataPoint s)) =
     measuredPoints s @
       [\<lparr>minutes = elapsedMinutes (measuredPoints s) (currentTime s),
         co2 = parseInt (currentCO2 s), type = measured, time = currentTime s\<rparr>]"
  using assms by (simp add: addDataPoint_def Let_def)

section \<open>The invariant of the elapsed minutes\<close>

lemma well_timed_snoc:
  assumes ms: "well_timed ms" and t: "timePattern t"
  shows "well_timed (ms @ [\<lparr>minutes = elapsedMinutes ms t, co2 = c, type = measured, time = t\<rparr>])"
proof -
  let ?p = "\<lparr>minutes = elapsedMinutes ms t, co2 = c, type = measured, time = t\<rparr>"
  have old: "\<forall>p \<in> set ms. timePattern (time p) \<and> (\<exists>k < 1440. minutes p = Fin (of_nat k))"
    and origin: "ms \<noteq> [] \<longrightarrow> minutes (ms ! 0) = Fin 0"
    using ms by (simp_all add: well_timed_def)
  have first: "ms \<noteq> [] \<Longrightarrow> timePattern (time (ms ! 0))"
    using old by simp
  from t first obtain k :: nat where k: "k < 1440" "elapsedMinutes ms t = Fin (of_nat k)"
    by (rule elapsedMinutes_range)
  have new: "timePattern (time ?p) \<and> (\<exists>k < 1440. minutes ?p = Fin (of_nat k))"
    using t k by auto
  have origin': "minutes ((ms @ [?p]) ! 0) = Fin 0"
  proof (cases "ms = []")
    case True
    then show ?thesis by (simp add: elapsedMinutes_def)
  next
    case False
    then show ?thesis using origin by (simp add: nth_append)
  qed
  have "\<forall>p \<in> set (ms @ [?p]). timePattern (time p) \<and> (\<exists>k < 1440. minutes p = Fin (of_nat k))"
    using old new by (simp only: set_append list.set ball_Un ball_simps)
  then show ?thesis
    using origin' by (simp only: well_timed_def) simp
qed

lemma well_timed_butlast:
  assumes "well_timed ms"
  shows "well_timed (butlast ms)"
proof -
  have old: "\<forall>p \<in> set ms. timePattern (time p) \<and> (\<exists>k < 1440. minutes p = Fin (of_nat k))"
    and origin: "ms \<noteq> [] \<longrightarrow> minutes (ms ! 0) = Fin 0"
    using assms by (simp_all add: well_timed_def)
  have "\<forall>p \<in> set (butlast ms). timePattern (time p) \<and> (\<exists>k < 1440. minutes p = Fin (of_nat k))"
    using old by (blast dest: in_set_butlastD)
  moreover have "minutes (butlast ms ! 0) = Fin 0" if "butlast ms \<noteq> []"
  proof -
    from that have "0 < length (butlast ms)" by (rule length_greater_0_conv [THEN iffD2])
    then have "butlast ms ! 0 = ms ! 0" by (rule nth_butlast)
    moreover from that have "ms \<noteq> []" by auto
    ultimately show ?thesis using origin by simp
  qed
  ultimately show ?thesis
    by (simp only: well_timed_def) simp
qed

lemma reachable_well_timed:
  assumes "reachable s"
  shows "well_timed (measuredPoints s)"
  using assms
proof (induction rule: reachable.induct)
  case start
  show ?case by (simp add: initial_def well_timed_def)
next
  case (typeTime s v)
  then show ?case by simp
next
  case (typeCO2 s v)
  then show ?case by simp
next
  case (now s hours mins)
  then show ?case by (simp add: setCurrentTimeToNow_def)
next
  case (add s)
  show ?case
  proof (cases "currentTime s = [] \<or> currentCO2 s = [] \<or> \<not> timePattern (currentTime s)")
    case True
    then show ?thesis using add.IH by (simp add: addDataPoint_reject)
  next
    case False
    then show ?thesis
      using add.IH by (simp add: addDataPoint_accept well_timed_snoc)
  qed
next
  case (clear s)
  show ?case by (simp add: clearData_def well_timed_def)
next
  case (remove s)
  then show ?case
    by (auto simp: removeLastPoint_def Let_def well_timed_butlast)
qed

text \<open>
  C9: in every state that a session reaches (by submissions, valid or rejected, resets,
  and removals of the last point), every stored measurement's elapsed minutes is a whole
  number from 0 to 1439, and a non-empty measurement sequence starts with elapsed
  minutes 0.
\<close>

theorem elapsed_minutes_invariant:
  assumes "reachable s"
  shows "(\<forall>p \<in> set (measuredPoints s). \<exists>k < 1440. minutes p = Fin (of_nat k)) \<and>
     (measuredPoints s \<noteq> [] \<longrightarrow> minutes (measuredPoints s ! 0) = Fin 0)"
  using reachable_well_timed [OF assms] by (simp add: well_timed_def)

theorem elapsed_minutes_invariant_witness:
  "reachable
     (snd (addDataPoint
        (snd (addDataPoint (initial\<lparr>currentTime := ''23:50'', currentCO2 := ''900''\<rparr>))
          \<lparr>currentTime := ''00:10'', currentCO2 := ''800''\<rparr>))) \<and>
   map minutes (measuredPoints
     (snd (addDataPoint
        (snd (addDataPoint (initial\<lparr>currentTime := ''23:50'', currentCO2 := ''900''\<rparr>))
          \<lparr>currentTime := ''00:10'', currentCO2 := ''800''\<rparr>)))) = [Fin 0, Fin 20]"
proof -
  let ?s = "snd (addDataPoint
        (snd (addDataPoint (initial\<lparr>currentTime := ''23:50'', currentCO2 := ''900''\<rparr>))
          \<lparr>currentTime := ''00:10'', currentCO2 := ''800''\<rparr>))"
  have r: "reachable ?s"
    by (intro reachable.intros)
  have ms: "measuredPoints ?s =
      [\<lparr>minutes = Fin 0, co2 = Fin 900, type = measured, time = ''23:50''\<rparr>,
       \<lparr>minutes = Fin 20, co2 = Fin 800, type = measured, time = ''00:10''\<rparr>]"
    by code_simp
  from elapsed_minutes_invariant [OF r] have "minutes (measuredPoints ?s ! 0) = Fin 0"
    unfolding ms by simp
  then show ?thesis
    using r unfolding ms by simp
qed


section \<open>Clock strings\<close>

text \<open>
  The strings that the Now button writes, \<open>HH:MM\<close> with both numbers padded to two digits:
  they are the strict format of the specification, and the code reads the minute of the
  day from them.
\<close>

lemma digitChar_code: "d < 10 \<Longrightarrow> of_char (digitChar d) = 48 + d"
  by (simp add: digitChar_def)

lemma digitChar_digit: "d < 10 \<Longrightarrow> isDigit (digitChar d)"
  by (simp add: isDigit_iff digitChar_code)

lemma digitVal_digitChar: "d < 10 \<Longrightarrow> digitVal (digitChar d) = d"
  by (simp add: digitVal_def digitChar_code)

lemma padStart2_toString:
  assumes "n < 100"
  shows "padStart2 (toString n) = [digitChar (n div 10), digitChar (n mod 10)]"
proof (cases "n < 10")
  case True
  then have "toString n = [digitChar n]" by (simp add: toString.simps)
  moreover have "digitChar 0 = CHR ''0''"
  proof -
    have "(of_char (digitChar 0) :: nat) = of_char (CHR ''0'')"
      by (simp add: digitChar_code)
    then show ?thesis by (simp only: of_char_eq_iff)
  qed
  ultimately show ?thesis using True by (simp add: padStart2_def)
next
  case False
  with assms have "n div 10 < 10" by simp
  then have "toString (n div 10) = [digitChar (n div 10)]" by (simp add: toString.simps)
  then have "toString n = [digitChar (n div 10), digitChar (n mod 10)]"
    using False by (simp add: toString.simps [of n])
  then show ?thesis by (simp add: padStart2_def)
qed

lemma clock_string:
  assumes "h < 24" and "m < 60"
  shows "padStart2 (toString h) @ '':'' @ padStart2 (toString m) =
     [digitChar (h div 10), digitChar (h mod 10), CHR '':'',
      digitChar (m div 10), digitChar (m mod 10)]"
  using assms by (simp add: padStart2_toString)

lemma clock_string_strict:
  assumes "h < 24" and "m < 60"
  shows "spec_strictTime (padStart2 (toString h) @ '':'' @ padStart2 (toString m))"
  unfolding clock_string [OF assms]
  using assms by (simp add: digitChar_digit digitVal_digitChar)

lemma char_two: "(of_char c :: nat) = 50 \<Longrightarrow> c = CHR ''2''"
proof -
  assume "(of_char c :: nat) = 50"
  then have "(of_char c :: nat) = of_char (CHR ''2'')" by simp
  then show ?thesis by (simp only: of_char_eq_iff)
qed

lemma strict_imp_timePattern:
  assumes "spec_strictTime t"
  shows "timePattern t"
  using assms
  by (cases t rule: spec_strictTime.cases)
     (auto simp: isDigit_iff in_class_def digitVal_def intro!: char_two)


lemma totalMinutes_clock:
  assumes "h < 24" and "m < 60"
  shows "totalMinutes (padStart2 (toString h) @ '':'' @ padStart2 (toString m)) =
     Fin (of_nat (h * 60 + m))"
proof -
  have d: "h div 10 < 10" "h mod 10 < 10" "m div 10 < 10" "m mod 10 < 10"
    using assms by simp_all
  have "totalMinutes (padStart2 (toString h) @ '':'' @ padStart2 (toString m)) =
     Fin (of_nat ((10 * (h div 10) + h mod 10) * 60 + (10 * (m div 10) + m mod 10)))"
    unfolding clock_string [OF assms]
    using d by (simp only: totalMinutes_5 digitChar_digit digitVal_digitChar)
  then show ?thesis by simp
qed

text \<open>
  C4: for every valid wall-clock string \<open>HH:MM\<close> (hour \<open>h\<close> below 24, minute \<open>m\<close> below 60,
  each written with two digits) the elapsed minutes of a submission are 0 when there is no
  prior measurement; otherwise, with the first measurement entered at \<open>h0:m0\<close>, they are
  \<open>delta = (60 h + m) - (60 h0 + m0)\<close>, with 1440 added when \<open>delta\<close> is negative; in
  particular the origin 23:50 followed by 00:10 yields 20.  \<open>addDataPoint\<close> appends the
  measurement with these elapsed minutes.
\<close>

theorem elapsed_minutes_from_origin:
  assumes "h < 24" and "m < 60" and "h0 < 24" and "m0 < 60"
    and t: "t = padStart2 (toString h) @ '':'' @ padStart2 (toString m)"
    and t0: "time origin = padStart2 (toString h0) @ '':'' @ padStart2 (toString m0)"
  shows "elapsedMinutes [] t = Fin 0 \<and>
     elapsedMinutes (origin # ms) t =
       Fin (of_int (if (int h * 60 + int m) - (int h0 * 60 + int m0) < 0
                    then (int h * 60 + int m) - (int h0 * 60 + int m0) + 1440
                    else (int h * 60 + int m) - (int h0 * 60 + int m0))) \<and>
     elapsedMinutes [\<lparr>minutes = Fin 0, co2 = Fin 900, type = measured, time = ''23:50''\<rparr>] ''00:10'' =
       Fin 20 \<and>
     (currentTime s = t \<and> currentCO2 s \<noteq> [] \<longrightarrow>
        measuredPoints (snd (addDataPoint s)) =
          measuredPoints s @
            [\<lparr>minutes = elapsedMinutes (measuredPoints s) t, co2 = parseInt (currentCO2 s),
              type = measured, time = t\<rparr>])"
proof -
  have first: "elapsedMinutes [] t = Fin 0"
    by (simp add: elapsedMinutes_def)
  have tm: "totalMinutes t = Fin (of_nat (h * 60 + m))"
    unfolding t using assms(1,2) by (rule totalMinutes_clock)
  have tm0: "totalMinutes (time ((origin # ms) ! 0)) = Fin (of_nat (h0 * 60 + m0))"
    using totalMinutes_clock [OF assms(3,4)] t0 by simp
  have later: "elapsedMinutes (origin # ms) t =
       Fin (of_int (if (int h * 60 + int m) - (int h0 * 60 + int m0) < 0
                    then (int h * 60 + int m) - (int h0 * 60 + int m0) + 1440
                    else (int h * 60 + int m) - (int h0 * 60 + int m0)))"
    using elapsedMinutes_Fin [OF _ tm tm0] assms(1-4) by simp
  have midnight:
    "elapsedMinutes [\<lparr>minutes = Fin 0, co2 = Fin 900, type = measured, time = ''23:50''\<rparr>] ''00:10'' =
       Fin 20"
    by code_simp
  have ok: "timePattern t" "t \<noteq> []"
    using strict_imp_timePattern [OF clock_string_strict [OF assms(1,2)]] t by auto
  have appended: "currentTime s = t \<and> currentCO2 s \<noteq> [] \<longrightarrow>
        measuredPoints (snd (addDataPoint s)) =
          measuredPoints s @
            [\<lparr>minutes = elapsedMinutes (measuredPoints s) t, co2 = parseInt (currentCO2 s),
              type = measured, time = t\<rparr>]"
    using ok addDataPoint_accept [of s] by auto
  show ?thesis
    using first later midnight appended by (intro conjI)
qed

theorem elapsed_minutes_from_origin_witness:
  "elapsedMinutes [] ''01:05'' = Fin 0 \<and>
   elapsedMinutes
     [\<lparr>minutes = Fin 0, co2 = Fin 900, type = measured, time = ''22:15''\<rparr>,
      \<lparr>minutes = Fin 30, co2 = Fin 850, type = measured, time = ''22:45''\<rparr>] ''01:05'' = Fin 170 \<and>
   measuredPoints (snd (addDataPoint
     \<lparr>measuredPoints = [\<lparr>minutes = Fin 0, co2 = Fin 900, type = measured, time = ''22:15''\<rparr>],
      projectedPoints = [], currentTime = ''01:05'', currentCO2 = ''700''\<rparr>)) =
     [\<lparr>minutes = Fin 0, co2 = Fin 900, type = measured, time = ''22:15''\<rparr>,
      \<lparr>minutes = Fin 170, co2 = Fin 700, type = measured, time = ''01:05''\<rparr>]"
proof -
  have s1: "padStart2 (toString 1) @ '':'' @ padStart2 (toString 5) = ''01:05''"
    by (simp add: padStart2_def toString.simps digitChar_def char_of_eq_iff)
  have s2: "padStart2 (toString 22) @ '':'' @ padStart2 (toString 15) = ''22:15''"
    by (simp add: padStart2_def toString.simps digitChar_def char_of_eq_iff)
  have co2: "parseInt ''700'' = Fin 700"
    by code_simp
  have h: "(1 :: nat) < 24" "(5 :: nat) < 60" "(22 :: nat) < 24" "(15 :: nat) < 60"
    by simp_all
  have t0: "time \<lparr>minutes = Fin 0, co2 = Fin 900, type = measured, time = ''22:15''\<rparr> =
      padStart2 (toString 22) @ '':'' @ padStart2 (toString 15)"
    by (simp only: s2 mpoint.simps)
  note inst = elapsed_minutes_from_origin [OF h s1 [symmetric] t0]
  show ?thesis
    using
      inst [of "[\<lparr>minutes = Fin 30, co2 = Fin 850, type = measured, time = ''22:45''\<rparr>]"
          "\<lparr>measuredPoints = [\<lparr>minutes = Fin 0, co2 = Fin 900, type = measured, time = ''22:15''\<rparr>],
            projectedPoints = [], currentTime = ''01:05'', currentCO2 = ''700''\<rparr>"]
      inst [of "[]"
          "\<lparr>measuredPoints = [\<lparr>minutes = Fin 0, co2 = Fin 900, type = measured, time = ''22:15''\<rparr>],
            projectedPoints = [], currentTime = ''01:05'', currentCO2 = ''700''\<rparr>"]
    by (simp add: co2)
qed


section \<open>The time field\<close>



lemma decimal_snoc: "decimal (ds @ [c]) = 10 * decimal ds + int (digitVal c)"
  by (simp add: decimal_def)









lemma split_colon_nonempty: "split_colon s \<noteq> []"
  by (induction s) (simp_all split: list.splits)










section \<open>The projection is recomputed from the last two readings\<close>

lemma buildProjectionSegment_short: "length ms < 2 \<Longrightarrow> buildProjectionSegment ms = []"
  by (simp add: buildProjectionSegment_def)

lemma buildProjectionSegment_last_two:
  "buildProjectionSegment (pre @ [p, q]) = buildProjectionSegment [p, q]"
proof -
  have "[p, q] ! (length [p, q] - 2) = p" "[p, q] ! (length [p, q] - 1) = q"
    by simp_all
  moreover have "\<not> length (pre @ [p, q]) < 2" "\<not> length [p, q] < 2"
    by simp_all
  ultimately show ?thesis
    unfolding buildProjectionSegment_def last_two_nth by (simp only: if_False)
qed

lemma split_last_two:
  assumes "2 \<le> length ms"
  obtains pre p q where "ms = pre @ [p, q]"
proof (cases ms rule: rev_cases)
  case Nil
  with assms show ?thesis by simp
next
  case (snoc ys q)
  show ?thesis
  proof (cases ys rule: rev_cases)
    case Nil
    with snoc assms show ?thesis by simp
  next
    case (snoc pre p)
    with \<open>ms = ys @ [q]\<close> have "ms = pre @ [p, q]" by simp
    then show ?thesis by (rule that)
  qed
qed

lemma buildProjectionSegment_drop:
  assumes "2 \<le> length ms"
  shows "buildProjectionSegment ms = buildProjectionSegment (drop (length ms - 2) ms)"
proof -
  from assms obtain pre p q where ms: "ms = pre @ [p, q]"
    by (rule split_last_two)
  have "drop (length ms - 2) ms = [p, q]"
    unfolding ms by simp
  then show ?thesis
    unfolding ms by (simp only: buildProjectionSegment_last_two)
qed

lemma reachable_projection:
  assumes "reachable s"
  shows "projectedPoints s = buildProjectionSegment (measuredPoints s)"
  using assms
proof (induction rule: reachable.induct)
  case start
  show ?case by (simp add: initial_def buildProjectionSegment_short)
next
  case (typeTime s v)
  then show ?case by simp
next
  case (typeCO2 s v)
  then show ?case by simp
next
  case (now s hours mins)
  then show ?case by (simp add: setCurrentTimeToNow_def)
next
  case (add s)
  show ?case
  proof (cases "currentTime s = [] \<or> currentCO2 s = [] \<or> \<not> timePattern (currentTime s)")
    case True
    then show ?thesis using add.IH by (simp add: addDataPoint_reject)
  next
    case False
    show ?thesis
    proof (cases "measuredPoints s = []")
      case True
      with False add.IH show ?thesis
        by (simp add: addDataPoint_def Let_def buildProjectionSegment_short)
    next
      case nonempty: False
      then have "2 \<le> length (measuredPoints s) + 1"
        by (cases "measuredPoints s") simp_all
      with False nonempty show ?thesis
        by (simp add: addDataPoint_def Let_def)
    qed
  qed
next
  case (clear s)
  show ?case by (simp add: clearData_def buildProjectionSegment_short)
next
  case (remove s)
  then show ?case
    by (auto simp: removeLastPoint_def Let_def buildProjectionSegment_short not_le)
qed

text \<open>
  C8: the projection depends only on the two most recent measurements.  Two measurement
  sequences of length 2 or more with the same last two elements have the same projection,
  which is the projection of those two elements alone.  The stored projected sequence is
  never merged with an older one: in every state of a session it is the projection of the
  current measurements, and an accepted submission after the first stores the same
  projected sequence whatever was stored before.
\<close>

theorem projection_depends_on_last_two:
  "(2 \<le> length ms \<and> 2 \<le> length ms' \<and>
      drop (length ms - 2) ms = drop (length ms' - 2) ms' \<longrightarrow>
      buildProjectionSegment ms = buildProjectionSegment ms') \<and>
   buildProjectionSegment (older @ [previous, latest]) = buildProjectionSegment [previous, latest] \<and>
   (reachable s \<longrightarrow> projectedPoints s = buildProjectionSegment (measuredPoints s)) \<and>
   (currentTime s \<noteq> [] \<and> currentCO2 s \<noteq> [] \<and> timePattern (currentTime s) \<and>
      measuredPoints s \<noteq> [] \<longrightarrow>
      projectedPoints (snd (addDataPoint (s\<lparr>projectedPoints := stored\<rparr>))) =
        buildProjectionSegment (measuredPoints (snd (addDataPoint s))))"
proof -
  have one: "2 \<le> length ms \<and> 2 \<le> length ms' \<and>
      drop (length ms - 2) ms = drop (length ms' - 2) ms' \<longrightarrow>
      buildProjectionSegment ms = buildProjectionSegment ms'"
    using buildProjectionSegment_drop [of ms] buildProjectionSegment_drop [of ms'] by simp
  have two: "reachable s \<longrightarrow> projectedPoints s = buildProjectionSegment (measuredPoints s)"
    by (simp add: reachable_projection)
  have three: "currentTime s \<noteq> [] \<and> currentCO2 s \<noteq> [] \<and> timePattern (currentTime s) \<and>
      measuredPoints s \<noteq> [] \<longrightarrow>
      projectedPoints (snd (addDataPoint (s\<lparr>projectedPoints := stored\<rparr>))) =
        buildProjectionSegment (measuredPoints (snd (addDataPoint s)))"
  proof (cases "measuredPoints s")
    case Nil
    then show ?thesis by simp
  next
    case (Cons a list)
    then show ?thesis by (simp add: addDataPoint_def Let_def)
  qed
  show ?thesis
    using one buildProjectionSegment_last_two [of older previous latest] two three
    by (intro conjI)
qed

theorem projection_depends_on_last_two_witness:
  "buildProjectionSegment
     [\<lparr>minutes = Fin 0, co2 = Fin 1500, type = measured, time = ''07:00''\<rparr>,
      \<lparr>minutes = Fin 10, co2 = Fin 1000, type = measured, time = ''07:10''\<rparr>,
      \<lparr>minutes = Fin 20, co2 = Fin 800, type = measured, time = ''07:20''\<rparr>] =
   buildProjectionSegment
     [\<lparr>minutes = Fin 0, co2 = Fin 600, type = measured, time = ''07:00''\<rparr>,
      \<lparr>minutes = Fin 5, co2 = Fin 1100, type = measured, time = ''07:05''\<rparr>,
      \<lparr>minutes = Fin 10, co2 = Fin 1000, type = measured, time = ''07:10''\<rparr>,
      \<lparr>minutes = Fin 20, co2 = Fin 800, type = measured, time = ''07:20''\<rparr>] \<and>
   projectedPoints (snd (addDataPoint
     \<lparr>measuredPoints = [\<lparr>minutes = Fin 0, co2 = Fin 1000, type = measured, time = ''07:10''\<rparr>],
      projectedPoints = [\<lparr>minutes = Fin 3, co2 = Fin 1, type = projected\<rparr>],
      currentTime = ''07:20'', currentCO2 = ''800''\<rparr>)) =
     [\<lparr>minutes = Fin 10, co2 = Fin 800, type = projected\<rparr>,
      \<lparr>minutes = Fin 23, co2 = Fin 550, type = projected\<rparr>]"
proof -
  have same: "buildProjectionSegment
     [\<lparr>minutes = Fin 0, co2 = Fin 1500, type = measured, time = ''07:00''\<rparr>,
      \<lparr>minutes = Fin 10, co2 = Fin 1000, type = measured, time = ''07:10''\<rparr>,
      \<lparr>minutes = Fin 20, co2 = Fin 800, type = measured, time = ''07:20''\<rparr>] =
   buildProjectionSegment
     [\<lparr>minutes = Fin 0, co2 = Fin 600, type = measured, time = ''07:00''\<rparr>,
      \<lparr>minutes = Fin 5, co2 = Fin 1100, type = measured, time = ''07:05''\<rparr>,
      \<lparr>minutes = Fin 10, co2 = Fin 1000, type = measured, time = ''07:10''\<rparr>,
      \<lparr>minutes = Fin 20, co2 = Fin 800, type = measured, time = ''07:20''\<rparr>]"
  using projection_depends_on_last_two
      [of "[\<lparr>minutes = Fin 0, co2 = Fin 1500, type = measured, time = ''07:00''\<rparr>,
            \<lparr>minutes = Fin 10, co2 = Fin 1000, type = measured, time = ''07:10''\<rparr>,
            \<lparr>minutes = Fin 20, co2 = Fin 800, type = measured, time = ''07:20''\<rparr>]"
          "[\<lparr>minutes = Fin 0, co2 = Fin 600, type = measured, time = ''07:00''\<rparr>,
            \<lparr>minutes = Fin 5, co2 = Fin 1100, type = measured, time = ''07:05''\<rparr>,
            \<lparr>minutes = Fin 10, co2 = Fin 1000, type = measured, time = ''07:10''\<rparr>,
            \<lparr>minutes = Fin 20, co2 = Fin 800, type = measured, time = ''07:20''\<rparr>]"
          "[]" "\<lparr>minutes = Fin 0, co2 = Fin 1000, type = measured, time = ''07:10''\<rparr>"
          "\<lparr>minutes = Fin 10, co2 = Fin 800, type = measured, time = ''07:20''\<rparr>"
          "\<lparr>measuredPoints = [\<lparr>minutes = Fin 0, co2 = Fin 1000, type = measured, time = ''07:10''\<rparr>],
            projectedPoints = [], currentTime = ''07:20'', currentCO2 = ''800''\<rparr>"
          "[\<lparr>minutes = Fin 3, co2 = Fin 1, type = projected\<rparr>]"]
    by simp
  have stored: "projectedPoints (snd (addDataPoint
     \<lparr>measuredPoints = [\<lparr>minutes = Fin 0, co2 = Fin 1000, type = measured, time = ''07:10''\<rparr>],
      projectedPoints = [\<lparr>minutes = Fin 3, co2 = Fin 1, type = projected\<rparr>],
      currentTime = ''07:20'', currentCO2 = ''800''\<rparr>)) =
     [\<lparr>minutes = Fin 10, co2 = Fin 800, type = projected\<rparr>,
      \<lparr>minutes = Fin 23, co2 = Fin 550, type = projected\<rparr>]"
    by code_simp
  show ?thesis
    using same stored by (rule conjI)
qed


section \<open>Removing the last point\<close>

text \<open>
  C10: \<open>removeLastPoint\<close> on a measurement sequence \<open>ms @ [p]\<close> leaves exactly \<open>ms\<close>, sets
  the projected sequence to the projection rebuilt from \<open>ms\<close> (empty when fewer than two
  measurements remain) and leaves the two input fields alone; on an empty measurement
  sequence it leaves the whole state unchanged.
\<close>

theorem removeLastPoint_rebuilds:
  "(measuredPoints s = ms @ [p] \<longrightarrow>
      measuredPoints (removeLastPoint s) = ms \<and>
      projectedPoints (removeLastPoint s) = buildProjectionSegment ms \<and>
      (length ms < 2 \<longrightarrow> projectedPoints (removeLastPoint s) = []) \<and>
      currentTime (removeLastPoint s) = currentTime s \<and>
      currentCO2 (removeLastPoint s) = currentCO2 s) \<and>
   (measuredPoints s = [] \<longrightarrow> removeLastPoint s = s)"
  by (auto simp: removeLastPoint_def Let_def buildProjectionSegment_short not_le)

theorem removeLastPoint_rebuilds_witness:
  "removeLastPoint
     \<lparr>measuredPoints =
        [\<lparr>minutes = Fin 0, co2 = Fin 1000, type = measured, time = ''12:00''\<rparr>,
         \<lparr>minutes = Fin 10, co2 = Fin 800, type = measured, time = ''12:10''\<rparr>,
         \<lparr>minutes = Fin 20, co2 = Fin 900, type = measured, time = ''12:20''\<rparr>],
      projectedPoints = [], currentTime = ''12:30'', currentCO2 = []\<rparr> =
     \<lparr>measuredPoints =
        [\<lparr>minutes = Fin 0, co2 = Fin 1000, type = measured, time = ''12:00''\<rparr>,
         \<lparr>minutes = Fin 10, co2 = Fin 800, type = measured, time = ''12:10''\<rparr>],
      projectedPoints =
        [\<lparr>minutes = Fin 10, co2 = Fin 800, type = projected\<rparr>,
         \<lparr>minutes = Fin 23, co2 = Fin 550, type = projected\<rparr>],
      currentTime = ''12:30'', currentCO2 = []\<rparr> \<and>
   removeLastPoint
     \<lparr>measuredPoints = [], projectedPoints = [], currentTime = ''12:30'', currentCO2 = ''5''\<rparr> =
     \<lparr>measuredPoints = [], projectedPoints = [], currentTime = ''12:30'', currentCO2 = ''5''\<rparr>"
  using removeLastPoint_rebuilds
    [of "\<lparr>measuredPoints =
          [\<lparr>minutes = Fin 0, co2 = Fin 1000, type = measured, time = ''12:00''\<rparr>,
           \<lparr>minutes = Fin 10, co2 = Fin 800, type = measured, time = ''12:10''\<rparr>,
           \<lparr>minutes = Fin 20, co2 = Fin 900, type = measured, time = ''12:20''\<rparr>],
          projectedPoints = [], currentTime = ''12:30'', currentCO2 = []\<rparr>"
        "[\<lparr>minutes = Fin 0, co2 = Fin 1000, type = measured, time = ''12:00''\<rparr>,
          \<lparr>minutes = Fin 10, co2 = Fin 800, type = measured, time = ''12:10''\<rparr>]"
        "\<lparr>minutes = Fin 20, co2 = Fin 900, type = measured, time = ''12:20''\<rparr>"]
    removeLastPoint_rebuilds
    [of "\<lparr>measuredPoints = [], projectedPoints = [], currentTime = ''12:30'', currentCO2 = ''5''\<rparr>"]
  by (simp add: removeLastPoint_def buildProjectionSegment_def Let_def rnd64_25_2)

end
